theory Spec2Isabelle
  imports Main "HOL-Library.AList"
begin

section \<open>Solvent registry and resolver of autode/solvent/solvents.py\<close>

subsection \<open>Strings\<close>

text \<open>
  A Python \<open>str\<close> is modelled by \<^typ>\<open>string\<close>, one \<^typ>\<open>char\<close> per code point, which
  covers the code points below 256.  On that range \<open>str.lower()\<close> moves the ASCII capitals
  \<open>A\<close>..\<open>Z\<close> and the Latin-1 capitals U+00C0..U+00DE (the multiplication sign U+00D7
  apart) up by 32 and leaves every other code point alone.
\<close>

definition lower_char :: "char \<Rightarrow> char" where
  "lower_char c =
     (let n = of_char c :: nat
      in if (65 \<le> n \<and> n \<le> 90) \<or> (192 \<le> n \<and> n \<le> 222 \<and> n \<noteq> 215)
         then char_of (n + 32) else c)"

definition lower :: "string \<Rightarrow> string" where
  "lower s = map lower_char s"

subsection \<open>Errors and the log\<close>

text \<open>
  Every \<open>raise\<close> of the module is a value: \<open>ValueError\<close>, \<open>SolventNotFound\<close> and
  \<open>IOError\<close> carry their message.  \<open>KeyError\<close> is what subscripting a dict at a missing
  key raises, \<open>TypeError\<close> what comparing \<open>None\<close> with a number raises, and
  \<open>ExternalError\<close> whatever the coordinate file reader raises on a file it cannot read.  \<open>logger.warning\<close> appends its message to a list of log lines.
\<close>

datatype error =
    ValueError string
  | SolventNotFound string
  | IOError string
  | KeyError string
  | TypeError string
  | ExternalError string

type_synonym log = "string list"

subsection \<open>class Solvent\<close>

text \<open>
  An instance holds \<open>name\<close>, \<open>smiles\<close>, \<open>aliases\<close> and one attribute per keyword argument
  (\<open>self.__dict__.update(kwargs)\<close>).  The keyword attributes are kept as an association
  list in insertion order, as a Python dict keeps them; \<open>name\<close>, \<open>smiles\<close> and \<open>aliases\<close>
  are parameters of \<open>__init__\<close>, so no keyword argument can carry one of these keys.
  \<open>is_implicit\<close> is decided by the class of the instance: \<open>ImplicitSolvent\<close> answers
  \<open>True\<close>; \<open>OtherSolvent\<close> stands for a subclass that answers \<open>False\<close>.
\<close>

datatype solvent_class = ImplicitSolvent | OtherSolvent

record solvent =
  cls :: solvent_class
  name :: string
  smiles :: "string option"
  aliases :: "string list"
  attrs :: "(string \<times> string) list"

definition Solvent_init ::
  "solvent_class \<Rightarrow> string \<Rightarrow> string option \<Rightarrow> string list option \<Rightarrow> (string \<times> string) list
     \<Rightarrow> solvent" where
  "Solvent_init c nm smi als kwargs =
     (let aliases0 = [lower nm];
          aliases1 = (case als of None \<Rightarrow> aliases0
                      | Some given \<Rightarrow> aliases0 @ map lower given);
          attrs0 = kwargs;
          attrs1 = (case map_of kwargs ''g09'' of None \<Rightarrow> attrs0
                    | Some v \<Rightarrow> AList.update ''g16'' v attrs0)
      in \<lparr>cls = c, name = nm, smiles = smi, aliases = aliases1, attrs = attrs1\<rparr>)"

definition is_implicit :: "solvent \<Rightarrow> bool" where
  "is_implicit s = (case cls s of ImplicitSolvent \<Rightarrow> True | OtherSolvent \<Rightarrow> False)"

definition is_explicit :: "solvent \<Rightarrow> bool" where
  "is_explicit s = (\<not> is_implicit s)"

text \<open>\<open>__eq__\<close>: \<open>None\<close> is never equal; otherwise name and SMILES decide.\<close>

definition solvent_eq :: "solvent \<Rightarrow> solvent option \<Rightarrow> bool" where
  "solvent_eq self other =
     (case other of None \<Rightarrow> False
      | Some s \<Rightarrow> name self = name s \<and> smiles self = smiles s)"


subsection \<open>The registry and the object store\<close>

text \<open>
  The module global \<open>solvents\<close> is a Python list of references to \<open>ImplicitSolvent\<close>
  objects.  The objects live in a store, a list indexed by reference; the registry is the
  list of their references.  \<open>solvents_init\<close> lists the constructor calls of the source in
  their order.
\<close>

type_synonym ref = nat

record module_state =
  objects :: "solvent list"
  solvents :: "ref list"

definition deref :: "module_state \<Rightarrow> ref \<Rightarrow> solvent" where
  "deref st r = objects st ! r"

text \<open>No dangling reference: every registry entry is an allocated object.\<close>

definition wf_state :: "module_state \<Rightarrow> bool" where
  "wf_state st = list_all (\<lambda>r. r < length (objects st)) (solvents st)"

text \<open>
  Any mutation of the object behind a reference (an attribute assignment, an
  \<open>aliases.append\<close>) replaces the stored object by its mutated form.
\<close>

definition mutate :: "ref \<Rightarrow> (solvent \<Rightarrow> solvent) \<Rightarrow> module_state \<Rightarrow> module_state" where
  "mutate r f st = st\<lparr>objects := (objects st)[r := f (deref st r)]\<rparr>"

text \<open>The attribute assignment \<open>solvent.name = v\<close>, one such mutation.\<close>

definition set_name :: "string \<Rightarrow> solvent \<Rightarrow> solvent" where
  "set_name v s = s\<lparr>name := v\<rparr>"

text \<open>\<open>Solvent.copy\<close>: \<open>deepcopy\<close> allocates a new object with the same contents.\<close>

definition copy :: "module_state \<Rightarrow> ref \<Rightarrow> module_state \<times> ref" where
  "copy st r = (st\<lparr>objects := objects st @ [deref st r]\<rparr>, length (objects st))"

definition solvents_init :: "solvent list" where
  "solvents_init =
    [Solvent_init ImplicitSolvent ''water'' (Some ''O'')
       (Some [''water'', ''h2o''])
       [(''orca'', ''water''), (''g09'', ''Water''), (''nwchem'', ''water''), (''xtb'', ''Water''), (''mopac'', ''water''), (''qchem'', ''water'')],
     Solvent_init ImplicitSolvent ''dichloromethane'' (Some ''ClCCl'')
       (Some [''dichloromethane'', ''methyl dichloride'', ''dcm''])
       [(''orca'', ''dichloromethane''), (''g09'', ''Dichloromethane''), (''nwchem'', ''dcm''), (''xtb'', ''CH2Cl2''), (''mopac'', ''dichloromethane''), (''qchem'', ''dichloromethane'')],
     Solvent_init ImplicitSolvent ''acetone'' (Some ''CC(C)=O'')
       (Some [''acetone'', ''propanone''])
       [(''orca'', ''acetone''), (''g09'', ''Acetone''), (''nwchem'', ''acetone''), (''xtb'', ''Acetone''), (''mopac'', ''acetone''), (''qchem'', ''acetone'')],
     Solvent_init ImplicitSolvent ''acetonitrile'' (Some ''CC#N'')
       (Some [''acetonitrile'', ''mecn'', ''ch3cn''])
       [(''orca'', ''acetonitrile''), (''g09'', ''Acetonitrile''), (''nwchem'', ''acetntrl''), (''xtb'', ''Acetonitrile''), (''mopac'', ''acetonitrile''), (''qchem'', ''acetonitrile'')],
     Solvent_init ImplicitSolvent ''benzene'' (Some ''C1=CC=CC=C1'')
       (Some [''benzene'', ''cyclohexatriene''])
       [(''orca'', ''benzene''), (''g09'', ''Benzene''), (''nwchem'', ''benzene''), (''xtb'', ''Benzene''), (''mopac'', ''benzene''), (''qchem'', ''benzene'')],
     Solvent_init ImplicitSolvent ''trichloromethane'' (Some ''ClC(Cl)Cl'')
       (Some [''chloroform'', ''trichloromethane'', ''chcl3'', ''methyl trichloride''])
       [(''orca'', ''chloroform''), (''g09'', ''Chloroform''), (''nwchem'', ''chcl3''), (''xtb'', ''CHCl3''), (''mopac'', ''chloroform''), (''qchem'', ''trichloromethane'')],
     Solvent_init ImplicitSolvent ''cs2'' (Some ''S=C=S'')
       (Some [''cs2'', ''methanedithione'', ''carbon bisulfide''])
       [(''orca'', ''carbon disulfide''), (''g09'', ''CarbonDiSulfide''), (''nwchem'', ''cs2''), (''xtb'', ''CS2''), (''mopac'', ''cs2''), (''qchem'', ''carbon disulfide'')],
     Solvent_init ImplicitSolvent ''dmf'' (Some ''O=CN(C)C'')
       (Some [''dmf'', ''dimethylformamide'', ''n,n-dimethylformamide''])
       [(''orca'', ''n,n-dimethylformamide''), (''g09'', ''n,n-DiMethylFormamide''), (''nwchem'', ''dmf''), (''xtb'', ''DMF''), (''mopac'', ''n,n-dimethylformamide''), (''qchem'', ''dimethylformamide'')],
     Solvent_init ImplicitSolvent ''dmso'' (Some ''O=S(C)C'')
       (Some [''dmso'', ''dimethylsulfoxide''])
       [(''orca'', ''dimethylsulfoxide''), (''g09'', ''DiMethylSulfoxide''), (''nwchem'', ''dmso''), (''xtb'', ''DMSO''), (''mopac'', ''dmso'')],
     Solvent_init ImplicitSolvent ''diethyl ether'' (Some ''CCOCC'')
       (Some [''diethyl ether'', ''ether'', ''Ethoxyethane''])
       [(''orca'', ''diethyl ether''), (''g09'', ''DiethylEther''), (''nwchem'', ''ether''), (''xtb'', ''Ether''), (''mopac'', ''ether''), (''qchem'', ''diethyl ether'')],
     Solvent_init ImplicitSolvent ''methanol'' (Some ''CO'')
       (Some [''methanol'', ''meoh''])
       [(''orca'', ''methanol''), (''g09'', ''Methanol''), (''nwchem'', ''methanol''), (''xtb'', ''Methanol''), (''mopac'', ''methanol''), (''qchem'', ''ethanol'')],
     Solvent_init ImplicitSolvent ''hexane'' (Some ''CCCCCC'')
       (Some [''hexane'', ''n-hexane''])
       [(''orca'', ''n-hexane''), (''g09'', ''n-Hexane''), (''nwchem'', ''hexane''), (''xtb'', ''n-Hexane''), (''mopac'', ''hexane''), (''qchem'', ''hexane'')],
     Solvent_init ImplicitSolvent ''thf'' (Some ''C1CCOC1'')
       (Some [''thf'', ''tetrahydrofuran'', ''oxolane''])
       [(''orca'', ''tetrahydrofuran''), (''g09'', ''TetraHydroFuran''), (''nwchem'', ''thf''), (''xtb'', ''THF''), (''mopac'', ''tetrahydrofuran''), (''qchem'', ''tetrahydrofuran'')],
     Solvent_init ImplicitSolvent ''toluene'' (Some ''CC1=CC=CC=C1'')
       (Some [''toluene'', ''methylbenzene'', ''phenyl methane''])
       [(''orca'', ''toluene''), (''g09'', ''Toluene''), (''nwchem'', ''toluene''), (''xtb'', ''Toluene''), (''mopac'', ''toluene''), (''qchem'', ''benzene'')],
     Solvent_init ImplicitSolvent ''acetic acid'' (Some ''CC(O)=O'')
       (Some [''acetic acid'', ''ethanoic acid''])
       [(''orca'', ''acetic acid''), (''g09'', ''AceticAcid''), (''nwchem'', ''acetacid''), (''mopac'', ''acetic acid''), (''qchem'', ''acetic acid'')],
     Solvent_init ImplicitSolvent ''1-butanol'' (Some ''CCCCO'')
       (Some [''1-butanol'', ''butanol'', ''n-butanol'', ''butan-1-ol''])
       [(''orca'', ''1-butanol''), (''g09'', ''1-Butanol''), (''nwchem'', ''butanol''), (''mopac'', ''1-butanol''), (''qchem'', ''1-butanol'')],
     Solvent_init ImplicitSolvent ''2-butanol'' (Some ''CC(O)CC'')
       (Some [''2-butanol'', ''sec-butanol'', ''butan-2-ol''])
       [(''orca'', ''2-butanol''), (''g09'', ''2-Butanol''), (''nwchem'', ''butanol2''), (''mopac'', ''2-butanol''), (''qchem'', ''sec-butanol'')],
     Solvent_init ImplicitSolvent ''acetophenone'' (Some ''CC(C1=CC=CC=C1)=O'')
       (Some [''acetophenone'', ''phenylacetone'', ''phenylethanone''])
       [(''orca'', ''acetophenone''), (''g09'', ''AcetoPhenone''), (''nwchem'', ''acetphen''), (''mopac'', ''acetophenone''), (''qchem'', ''acetone'')],
     Solvent_init ImplicitSolvent ''aniline'' (Some ''NC1=CC=CC=C1'')
       (Some [''aniline'', ''benzenamine'', ''phenylamine''])
       [(''orca'', ''aniline''), (''g09'', ''Aniline''), (''nwchem'', ''aniline''), (''mopac'', ''aniline''), (''qchem'', ''aniline'')],
     Solvent_init ImplicitSolvent ''anisole'' (Some ''COC1=CC=CC=C1'')
       (Some [''anisole'', ''methoxybenzene'', ''phenoxymethane''])
       [(''orca'', ''anisole''), (''g09'', ''Anisole''), (''nwchem'', ''anisole''), (''mopac'', ''anisole''), (''qchem'', ''anisole'')],
     Solvent_init ImplicitSolvent ''benzaldehyde'' (Some ''O=CC1=CC=CC=C1'')
       (Some [''benzaldehyde'', ''phenylmethanal''])
       [(''orca'', ''benzaldehyde''), (''g09'', ''Benzaldehyde''), (''nwchem'', ''benzaldh''), (''mopac'', ''benzaldehyde''), (''qchem'', ''benzaldehyde'')],
     Solvent_init ImplicitSolvent ''benzonitrile'' (Some ''N#CC1=CC=CC=C1'')
       (Some [''benzonitrile'', ''cyanobenzene'', ''phenyl cyanide''])
       [(''orca'', ''benzonitrile''), (''g09'', ''BenzoNitrile''), (''nwchem'', ''benzntrl''), (''mopac'', ''benzonitrile''), (''qchem'', ''benzene'')],
     Solvent_init ImplicitSolvent ''benzyl chloride'' (Some ''ClCC1=CC=CC=C1'')
       (Some [''benzyl chloride'', ''(chloromethyl)benzene'', ''Chloromethyl benzene'', ''a-chlorotoluene''])
       [(''orca'', ''a-chlorotoluene''), (''g09'', ''a-ChloroToluene''), (''nwchem'', ''benzylcl''), (''mopac'', ''benzyl chloride''), (''qchem'', ''benzene'')],
     Solvent_init ImplicitSolvent ''1-bromo-2-methylpropane'' (Some ''CC(C)CBr'')
       (Some [''1-bromo-2-methylpropane'', ''isobutyl bromide''])
       [(''orca'', ''1-bromo-2-methylpropane''), (''g09'', ''1-Bromo-2-MethylPropane''), (''nwchem'', ''brisobut''), (''mopac'', ''isobutyl bromide''), (''qchem'', ''1-bromo-2-methylpropane'')],
     Solvent_init ImplicitSolvent ''bromobenzene'' (Some ''BrC1=CC=CC=C1'')
       (Some [''bromobenzene'', ''phenyl bromide''])
       [(''orca'', ''bromobenzene''), (''g09'', ''BromoBenzene''), (''nwchem'', ''brbenzen''), (''mopac'', ''bromobenzene''), (''qchem'', ''benzene'')],
     Solvent_init ImplicitSolvent ''bromoethane'' (Some ''CCBr'')
       (Some [''bromoethane'', ''ethyl bromide'', ''etbr''])
       [(''orca'', ''bromoethane''), (''g09'', ''BromoEthane''), (''nwchem'', ''brethane''), (''mopac'', ''bromoethane''), (''qchem'', ''bromoethane'')],
     Solvent_init ImplicitSolvent ''bromoform'' (Some ''BrC(Br)Br'')
       (Some [''bromoform'', ''tribromomethane'', ''methyl tribromide'', ''chbr3''])
       [(''orca'', ''bromoform''), (''g09'', ''Bromoform''), (''nwchem'', ''bromform''), (''mopac'', ''bromoform''), (''qchem'', ''tribromomethane'')],
     Solvent_init ImplicitSolvent ''1-bromooctane'' (Some ''CCCCCCCCBr'')
       (Some [''1-bromooctane'', ''bromooctane'', ''octyl bromide'', ''1-octyl bromide''])
       [(''orca'', ''1-bromooctane''), (''g09'', ''1-BromoOctane''), (''nwchem'', ''broctane''), (''mopac'', ''bromooctane''), (''qchem'', ''bromooctane'')],
     Solvent_init ImplicitSolvent ''1-bromopentane'' (Some ''CCCCCBr'')
       (Some [''1-bromopentane'', ''bromopentane'', ''pentyl bromide''])
       [(''orca'', ''1-bromopentane''), (''g09'', ''1-BromoPentane''), (''nwchem'', ''brpentan''), (''mopac'', ''bromopentane''), (''qchem'', ''1-bromopentane'')],
     Solvent_init ImplicitSolvent ''butantal'' (Some ''CCCC=O'')
       (Some [''butanal'', ''butyraldehyde''])
       [(''orca'', ''butanal''), (''g09'', ''Butanal''), (''nwchem'', ''butanal''), (''mopac'', ''butanal''), (''qchem'', ''butanal'')],
     Solvent_init ImplicitSolvent ''butanone'' (Some ''CC(CC)=O'')
       (Some [''butanone'', ''2-butanone'', ''butan-2-one'', ''methyl ethyl ketone'', ''ethyl methyl ketone''])
       [(''orca'', ''butanone''), (''g09'', ''Butanone''), (''nwchem'', ''butanone''), (''mopac'', ''2-butanone''), (''qchem'', ''butanone'')],
     Solvent_init ImplicitSolvent ''carbon tetrachloride'' (Some ''ClC(Cl)(Cl)Cl'')
       (Some [''carbon tetrachloride'', ''ccl4'', ''tetrachloromethane''])
       [(''orca'', ''carbon tetrachloride''), (''g09'', ''CarbonTetraChloride''), (''nwchem'', ''carbntet''), (''mopac'', ''carbon tetrachloride''), (''qchem'', ''carbon tetrachloride'')],
     Solvent_init ImplicitSolvent ''chlorobenzene'' (Some ''ClC1=CC=CC=C1'')
       (Some [''chlorobenzene'', ''benzene chloride'', ''phenyl chloride''])
       [(''orca'', ''chlorobenzene''), (''g09'', ''ChloroBenzene''), (''nwchem'', ''clbenzen''), (''mopac'', ''chlorobenzene''), (''qchem'', ''benzene'')],
     Solvent_init ImplicitSolvent ''cyclohexane'' (Some ''C1CCCCC1'')
       (Some [''cyclohexane''])
       [(''orca'', ''cyclohexane''), (''g09'', ''CycloHexane''), (''nwchem'', ''cychexan''), (''mopac'', ''cyclohexane''), (''qchem'', ''cyclohexane'')],
     Solvent_init ImplicitSolvent ''1,2-dichlorobenzene'' (Some ''ClC1=CC=CC=C1Cl'')
       (Some [''1,2-dichlorobenzene'', ''o-dichlorobenzene'', ''ortho-dichlorobenzene''])
       [(''orca'', ''o-dichlorobenzene''), (''g09'', ''o-DiChloroBenzene''), (''nwchem'', ''odiclbnz''), (''mopac'', ''1,2-dichlorobenzene''), (''qchem'', ''benzene'')],
     Solvent_init ImplicitSolvent ''n,n-dimethylacetamide'' (Some ''CC(N(C)C)=O'')
       (Some [''n,n-dimethylacetamide'', ''dmac'', ''dma'', ''dimethylacetamide''])
       [(''orca'', ''n,n-dimethylacetamide''), (''g09'', ''n,n-DiMethylAcetamide''), (''nwchem'', ''dma''), (''mopac'', ''n,n-dimethylacetamide''), (''qchem'', ''dimethylacetamide'')],
     Solvent_init ImplicitSolvent ''dioxane'' (Some ''O1CCOCC1'')
       (Some [''dioxane'', ''1,4-dioxane'', ''p-dioxane''])
       [(''orca'', ''1,4-dioxane''), (''g09'', ''1,4-Dioxane''), (''nwchem'', ''dioxane''), (''mopac'', ''1,4-dioxane''), (''qchem'', ''1,4-dioxane'')],
     Solvent_init ImplicitSolvent ''ethyl acetate'' (Some ''CC(OCC)=O'')
       (Some [''ethyl acetate'', ''etoac'', ''ethyl ethanoate''])
       [(''orca'', ''ethyl ethanoate''), (''g09'', ''EthylEthanoate''), (''nwchem'', ''etoac''), (''mopac'', ''ethyl acetate'')],
     Solvent_init ImplicitSolvent ''ethanol'' (Some ''CCO'')
       (Some [''ethanol'', ''ethyl alcohol'', ''etoh''])
       [(''orca'', ''ethanol''), (''g09'', ''Ethanol''), (''nwchem'', ''ethanol''), (''mopac'', ''ethyl alcohol''), (''qchem'', ''ethanol'')],
     Solvent_init ImplicitSolvent ''heptane'' (Some ''CCCCCCC'')
       (Some [''heptane'', ''n-heptane''])
       [(''orca'', ''n-heptane''), (''g09'', ''Heptane''), (''nwchem'', ''heptane''), (''mopac'', ''heptane''), (''qchem'', ''heptane'')],
     Solvent_init ImplicitSolvent ''pentane'' (Some ''CCCCC'')
       (Some [''pentane'', ''n-pentane''])
       [(''orca'', ''n-pentane''), (''g09'', ''n-Pentane''), (''nwchem'', ''npentane''), (''mopac'', ''pentane''), (''qchem'', ''pentane'')],
     Solvent_init ImplicitSolvent ''1-propanol'' (Some ''CCCO'')
       (Some [''1-propanol'', ''propanol'', ''n-propaol'', ''n-proh''])
       [(''orca'', ''1-propanol''), (''g09'', ''1-Propanol''), (''nwchem'', ''propanol''), (''mopac'', ''1-propanol''), (''qchem'', ''1-propanol'')],
     Solvent_init ImplicitSolvent ''pyridine'' (Some ''C1=NC=CC=C1'')
       (Some [''pyridine''])
       [(''orca'', ''pyridine''), (''g09'', ''Pyridine''), (''nwchem'', ''pyridine''), (''mopac'', ''pyridine''), (''qchem'', ''pyridine'')],
     Solvent_init ImplicitSolvent ''1,1,1-trichloroethane'' (Some ''CC(Cl)(Cl)Cl'')
       (Some [''1,1,1-trichloroethane'', ''methyl chloroform'', ''1,1,1-tca''])
       [(''orca'', ''1,1,1-trichloroethane''), (''g09'', ''1,1,1-TriChloroEthane''), (''nwchem'', ''tca111''), (''mopac'', ''1,1,1-trichloroethane''), (''qchem'', ''1,1,1-trichloroethane'')],
     Solvent_init ImplicitSolvent ''cyclopentane'' (Some ''C1CCCC1'')
       (Some [''cyclopentane''])
       [(''orca'', ''cyclopentane''), (''g09'', ''CycloPentane''), (''nwchem'', ''cycpentn''), (''mopac'', ''cyclopentane''), (''qchem'', ''cyclopentane'')],
     Solvent_init ImplicitSolvent ''1,1,2-trichloroethane'' (Some ''ClCC(Cl)Cl'')
       (Some [''1,1,2-trichloroethane'', ''vinyl trichloride'', ''1,1,2-tca''])
       [(''orca'', ''1,1,2-trichloroethane''), (''g09'', ''1,1,2-TriChloroEthane''), (''nwchem'', ''tca112''), (''mopac'', ''1,1,2-trichloroethane''), (''qchem'', ''1,1,2-trichloroethane'')],
     Solvent_init ImplicitSolvent ''cyclopentanol'' (Some ''OC1CCCC1'')
       (Some [''cyclopentanol''])
       [(''orca'', ''cyclopentanol''), (''g09'', ''CycloPentanol''), (''nwchem'', ''cycpntol''), (''mopac'', ''cyclopentanol''), (''qchem'', ''cyclopentanol'')],
     Solvent_init ImplicitSolvent ''1,2,4-trimethylbenzene'' (Some ''CC1=CC=C(C)C(C)=C1'')
       (Some [''1,2,4-trimethylbenzene'', ''pseudocumene''])
       [(''orca'', ''1,2,4-trimethylbenzene''), (''g09'', ''1,2,4-TriMethylBenzene''), (''nwchem'', ''tmben124''), (''mopac'', ''1,2,4-trimethylbenzene''), (''qchem'', ''1,2,4-trimethylbenzene'')],
     Solvent_init ImplicitSolvent ''cyclopentanone'' (Some ''O=C1CCCC1'')
       (Some [''cyclopentanone''])
       [(''orca'', ''cyclopentanone''), (''g09'', ''CycloPentanone''), (''nwchem'', ''cycpnton''), (''mopac'', ''cyclopentanone''), (''qchem'', ''cyclopentanone'')],
     Solvent_init ImplicitSolvent ''1,2-dibromoethane'' (Some ''BrCCBr'')
       (Some [''1,2-dibromoethane'', ''ethylene dibromide'', ''edb''])
       [(''orca'', ''1,2-dibromoethane''), (''g09'', ''1,2-DiBromoEthane''), (''nwchem'', ''edb12''), (''mopac'', ''1,2-dibromoethane''), (''qchem'', ''bromoethane'')],
     Solvent_init ImplicitSolvent ''1,2-dichloroethane'' (Some ''ClCCCl'')
       (Some [''1,2-dichloroethane'', ''ethylene dichloride'', ''dce'', ''dichloroethane''])
       [(''orca'', ''1,2-dichloroethane''), (''g09'', ''DiChloroEthane''), (''nwchem'', ''edc12''), (''mopac'', ''1,2-dichloroethane'')],
     Solvent_init ImplicitSolvent ''cis-decalin'' (Some ''[H][C@@]12CCCC[C@]1([H])CCCC2'')
       (Some [''cis-decalin'', ''cis decalin''])
       [(''orca'', ''cis-decalin''), (''g09'', ''Cis-Decalin''), (''nwchem'', ''declncis''), (''mopac'', ''cis-decalin''), (''qchem'', ''decalin'')],
     Solvent_init ImplicitSolvent ''trans-decalin'' (Some ''[H][C@@]12CCCC[C@@]1([H])CCCC2'')
       (Some [''trans-decalin'', ''trans decalin''])
       [(''orca'', ''trans-decalin''), (''g09'', ''trans-Decalin''), (''nwchem'', ''declntra''), (''mopac'', ''trans-decalin''), (''qchem'', ''decalin'')],
     Solvent_init ImplicitSolvent ''decalin mix'' (Some ''C12CCCCC1CCCC2'')
       (Some [''decalin mix'', ''decalin'', ''decalin mixture''])
       [(''orca'', ''decalin''), (''g09'', ''Decalin-mixture''), (''nwchem'', ''declnmix''), (''mopac'', ''decalin''), (''qchem'', ''decalin'')],
     Solvent_init ImplicitSolvent ''1,2-ethanediol'' (Some ''OCCO'')
       (Some [''1,2-ethanediol'', ''ethylene glycol'', ''ethane-1,2-diol'', ''monoethylene glycol''])
       [(''orca'', ''1,2-ethanediol''), (''g09'', ''1,2-EthaneDiol''), (''nwchem'', ''meg''), (''mopac'', ''1,2-ethanediol''), (''qchem'', ''ethylene glycol'')],
     Solvent_init ImplicitSolvent ''decane'' (Some ''CCCCCCCCCC'')
       (Some [''decane'', ''n-decane''])
       [(''orca'', ''n-decane''), (''g09'', ''n-Decane''), (''nwchem'', ''decane''), (''mopac'', ''decane''), (''qchem'', ''decane'')],
     Solvent_init ImplicitSolvent ''dibromomethane'' (Some ''BrCBr'')
       (Some [''dibromomethane'', ''methyl dibromide''])
       [(''orca'', ''dibromomethane''), (''g09'', ''DiBromomEthane''), (''nwchem'', ''dibrmetn''), (''mopac'', ''dibromomethane''), (''qchem'', ''dibromomethane'')],
     Solvent_init ImplicitSolvent ''dibutylether'' (Some ''CCCCOCCCC'')
       (Some [''dibutylether'', ''butyl ether''])
       [(''orca'', ''dibutylether''), (''g09'', ''DiButylEther''), (''nwchem'', ''butyleth''), (''mopac'', ''dibutylether'')],
     Solvent_init ImplicitSolvent ''cis-1,2-dichloroethene'' (Some (''Cl/C=C'' @ [CHR 0x5C] @ ''Cl''))
       (Some [''cis-1,2-dichloroethene'', ''cis-1,2-dichloroethylene'', ''z-1,2-dichloroethene'', ''z-1,2-dichloroethylene''])
       [(''orca'', ''z-1,2-dichloroethene''), (''g09'', ''z-1,2-DiChloroEthene''), (''nwchem'', ''c12dce''), (''mopac'', ''z-1,2-dichloroethene''), (''qchem'', ''z-1,2-dichloroethene'')],
     Solvent_init ImplicitSolvent ''trans-1,2-dichloroethen'' (Some ''Cl/C=C/Cl'')
       (Some [''trans-1,2-dichloroethene'', ''trans-1,2-dichloroethylene'', ''e-1,2-dichloroethene'', ''e-1,2-dichloroethylene''])
       [(''orca'', ''e-1,2-dichloroethene''), (''g09'', ''e-1,2-DiChloroEthene''), (''nwchem'', ''t12dce''), (''mopac'', ''z-1,2-dichloroethene''), (''qchem'', ''E-1,2-dichloroethene'')],
     Solvent_init ImplicitSolvent ''1-bromopropane'' (Some ''CCCBr'')
       (Some [''1-bromopropane'', ''bromopropane''])
       [(''orca'', ''1-bromopropane''), (''g09'', ''1-BromoPropane''), (''nwchem'', ''brpropan''), (''mopac'', ''1-bromopropane''), (''qchem'', ''1-bromopropane'')],
     Solvent_init ImplicitSolvent ''2-bromopropane'' (Some ''CC(Br)C'')
       (Some [''2-bromopropane'', ''isopropyl bromide''])
       [(''orca'', ''2-bromopropane''), (''g09'', ''2-BromoPropane''), (''nwchem'', ''brpropa2''), (''mopac'', ''2-bromopropane''), (''qchem'', ''2-bromopropane'')],
     Solvent_init ImplicitSolvent ''1-chlorohexane'' (Some ''CCCCCCCl'')
       (Some [''1-chlorohexane'', ''chlorohexane''])
       [(''orca'', ''1-chlorohexane''), (''g09'', ''1-ChloroHexane''), (''nwchem'', ''clhexane''), (''mopac'', ''1-chlorohexane''), (''qchem'', ''hexane'')],
     Solvent_init ImplicitSolvent ''1-chloropentane'' (Some ''CCCCCCl'')
       (Some [''1-chloropentane'', ''chloropentane''])
       [(''orca'', ''1-chloropentane''), (''g09'', ''1-ChloroPentane''), (''nwchem'', ''clpentan''), (''mopac'', ''1-chloropentane''), (''qchem'', ''1-chloropentane'')],
     Solvent_init ImplicitSolvent ''1-chloropropane'' (Some ''CCCCl'')
       (Some [''1-chloropropane'', ''chloropropane''])
       [(''orca'', ''1-chloropropane''), (''g09'', ''1-ChloroPropane''), (''nwchem'', ''clpropan''), (''mopac'', ''1-chloropropane''), (''qchem'', ''1-chloropropane'')],
     Solvent_init ImplicitSolvent ''diethylamine'' (Some ''CCNCC'')
       (Some [''diethylamine'', ''n-ethylethanamine''])
       [(''orca'', ''diethylamine''), (''g09'', ''DiEthylAmine''), (''nwchem'', ''dietamin''), (''mopac'', ''diethylamine''), (''qchem'', ''diethylamine'')],
     Solvent_init ImplicitSolvent ''1-decanol'' (Some ''CCCCCCCCCCO'')
       (Some [''1-decanol'', ''decanol'', ''decan-1-ol''])
       [(''orca'', ''1-decanol''), (''g09'', ''1-Decanol''), (''nwchem'', ''decanol''), (''mopac'', ''decanol''), (''qchem'', ''1-decanol'')],
     Solvent_init ImplicitSolvent ''diiodomethane'' (Some ''ICI'')
       (Some [''diiodomethane'', ''methylene iodide''])
       [(''orca'', ''diiodomethane''), (''g09'', ''DiIodoMethane''), (''nwchem'', ''mi''), (''mopac'', ''diiodomethane''), (''qchem'', ''diiodomethane'')],
     Solvent_init ImplicitSolvent ''1-fluorooctane'' (Some ''CCCCCCCCF'')
       (Some [''1-fluorooctane'', ''fluorooctane'', ''octyl fluoride''])
       [(''orca'', ''1-fluorooctane''), (''g09'', ''1-FluoroOctane''), (''nwchem'', ''foctane''), (''mopac'', ''1-fluorooctane''), (''qchem'', ''1-fluorooctane'')],
     Solvent_init ImplicitSolvent ''1-heptanol'' (Some ''CCCCCCCO'')
       (Some [''1-helptanol'', ''heptanol'', ''heptan-1-ol''])
       [(''orca'', ''1-helptanol''), (''g09'', ''1-Heptanol''), (''nwchem'', ''heptanol''), (''mopac'', ''heptanol''), (''qchem'', ''1-heptanol'')],
     Solvent_init ImplicitSolvent ''cis-1,2-dimethylcyclohexane'' (Some ''C[C@@H]1[C@H](C)CCCC1'')
       (Some [''cis-1,2-dimethylcyclohexane''])
       [(''orca'', ''cis-1,2-dimethylcyclohexane''), (''g09'', ''Cis-1,2-DiMethylCycloHexane''), (''nwchem'', ''cisdmchx''), (''mopac'', ''cisdmchx''), (''qchem'', ''cis-1,2-dimethylcyclohexane'')],
     Solvent_init ImplicitSolvent ''diethyl sulfide'' (Some ''CCSCC'')
       (Some [''diethyl sulfide'', ''et2s'', ''thioethyl ether''])
       [(''orca'', ''diethyl sulfide''), (''g09'', ''DiEthylSulfide''), (''nwchem'', ''et2s''), (''mopac'', ''diethyl sulfide'')],
     Solvent_init ImplicitSolvent ''diisopropyl ether'' (Some ''CC(OC(C)C)C'')
       (Some [''diisopropyl ether'', ''dipe''])
       [(''orca'', ''diisopropyl ether''), (''g09'', ''DiIsoPropylEther''), (''nwchem'', ''dipe''), (''mopac'', ''diisopropyl ether''), (''qchem'', ''isopropyl ether'')],
     Solvent_init ImplicitSolvent ''1-hexanol'' (Some ''CCCCCCO'')
       (Some [''1-hexanol'', ''hexanol'', ''haxan-1-ol''])
       [(''orca'', ''1-hexanol''), (''g09'', ''1-Hexanol''), (''nwchem'', ''hexanol''), (''mopac'', ''hexanol''), (''qchem'', ''1-hexanol'')],
     Solvent_init ImplicitSolvent ''1-hexene'' (Some ''C=CCCCC'')
       (Some [''1-hexene'', ''hexene'', ''hex-1-ene''])
       [(''orca'', ''1-hexene''), (''g09'', ''1-Hexene''), (''nwchem'', ''hexene''), (''mopac'', ''hexene''), (''qchem'', ''1-hexene'')],
     Solvent_init ImplicitSolvent ''1-hexyne'' (Some ''C#CCCCC'')
       (Some [''1-hexyne'', ''hexyne'', ''hex-1-yne''])
       [(''orca'', ''1-hexyne''), (''g09'', ''1-Hexyne''), (''nwchem'', ''hexyne''), (''mopac'', ''hexyne''), (''qchem'', ''1-hexyne'')],
     Solvent_init ImplicitSolvent ''1-iodobutane'' (Some ''CCCCI'')
       (Some [''1-iodobutane'', ''iodobutane''])
       [(''orca'', ''1-iodobutane''), (''g09'', ''1-IodoButane''), (''nwchem'', ''iobutane''), (''mopac'', ''iodobutane''), (''qchem'', ''1-iodobutane'')],
     Solvent_init ImplicitSolvent ''1-iodohexadecane'' (Some ''CCCCCCCCCCCCCCCCI'')
       (Some [''1-iodohexadecane'', ''iodohexadecane''])
       [(''orca'', ''1-iodohexadecane''), (''g09'', ''1-IodoHexaDecane''), (''nwchem'', ''iohexdec''), (''mopac'', ''1-iodohexadecane''), (''qchem'', ''decane'')],
     Solvent_init ImplicitSolvent ''diphenylether'' (Some ''C1(OC2=CC=CC=C2)=CC=CC=C1'')
       (Some [''diphenylether'', ''phenoxybenzene''])
       [(''orca'', ''diphenylether''), (''g09'', ''DiPhenylEther''), (''nwchem'', ''phoph''), (''mopac'', ''diphenylether''), (''qchem'', ''benzene'')],
     Solvent_init ImplicitSolvent ''1-iodopentane'' (Some ''CCCCCI'')
       (Some [''1-iodopentane'', ''iodopentane''])
       [(''orca'', ''1-iodopentane''), (''g09'', ''1-IodoPentane''), (''nwchem'', ''iopentan''), (''mopac'', ''1-iodopentane''), (''qchem'', ''pentane'')],
     Solvent_init ImplicitSolvent ''1-iodopropane'' (Some ''CCCI'')
       (Some [''1-iodopropane'', ''iodopropane''])
       [(''orca'', ''1-iodopropane''), (''g09'', ''1-IodoPropane''), (''nwchem'', ''iopropan''), (''mopac'', ''1-iodopropane''), (''qchem'', ''1-iodopropane'')],
     Solvent_init ImplicitSolvent ''dipropylamine'' (Some ''CCCNCCC'')
       (Some [''dipropylamine''])
       [(''orca'', ''dipropylamine''), (''g09'', ''DiPropylAmine''), (''nwchem'', ''dproamin''), (''mopac'', ''dipropylamine''), (''qchem'', ''dipropylamine'')],
     Solvent_init ImplicitSolvent ''n-dodecane'' (Some ''CCCCCCCCCCCC'')
       (Some [''n-dodecane'', ''dodecane''])
       [(''orca'', ''n-dodecane''), (''g09'', ''n-Dodecane''), (''nwchem'', ''dodecan''), (''mopac'', ''dodecane''), (''qchem'', ''decane'')],
     Solvent_init ImplicitSolvent ''1-nitropropane'' (Some ''CCC[N+]([O-])=O'')
       (Some [''1-nitropropane''])
       [(''orca'', ''1-nitropropane''), (''g09'', ''1-NitroPropane''), (''nwchem'', ''ntrprop1''), (''mopac'', ''1-nitropropane''), (''qchem'', ''1-nitropropane'')],
     Solvent_init ImplicitSolvent ''ethanethiol'' (Some ''CCS'')
       (Some [''ethanethiol'', ''ethane thiol'', ''etsh''])
       [(''orca'', ''ethanethiol''), (''g09'', ''EthaneThiol''), (''nwchem'', ''etsh''), (''mopac'', ''ethanethiol''), (''qchem'', ''ethanethiol'')],
     Solvent_init ImplicitSolvent ''1-nonanol'' (Some ''CCCCCCCCCO'')
       (Some [''1-nonanol'', ''nonanol'', ''nonan-1-ol''])
       [(''orca'', ''1-nonanol''), (''g09'', ''1-Nonanol''), (''nwchem'', ''nonanol''), (''mopac'', ''nonanol''), (''qchem'', ''1-nonanol'')],
     Solvent_init ImplicitSolvent ''1-octanol'' (Some ''CCCCCCCCO'')
       (Some [''1-octanol'', ''octanol'', ''octan-1-ol''])
       [(''orca'', ''1-octanol''), (''g09'', ''n-Octanol''), (''nwchem'', ''octanol''), (''mopac'', ''octanol''), (''qchem'', ''1-octanol'')],
     Solvent_init ImplicitSolvent ''1-pentanol'' (Some ''CCCCCO'')
       (Some [''1-pentanol'', ''pentanol'', ''pentan-1-ol''])
       [(''orca'', ''1-pentanol''), (''g09'', ''1-Pentanol''), (''nwchem'', ''pentanol''), (''mopac'', ''pentanol''), (''qchem'', ''1-pentanol'')],
     Solvent_init ImplicitSolvent ''1-pentene'' (Some ''C=CCCC'')
       (Some [''1-pentene'', ''pentene'', ''pent-1-ene''])
       [(''orca'', ''1-pentene''), (''g09'', ''1-Pentene''), (''nwchem'', ''pentene''), (''mopac'', ''pentene''), (''qchem'', ''1-pentene'')],
     Solvent_init ImplicitSolvent ''ethyl benzene'' (Some ''CCC1=CC=CC=C1'')
       (Some [''ethyl benzene'', ''ethylbenzene'', ''phenylethane''])
       [(''orca'', ''ethylbenzene''), (''g09'', ''EthylBenzene''), (''nwchem'', ''eb''), (''mopac'', ''ethylbenzene''), (''qchem'', ''benzene'')],
     Solvent_init ImplicitSolvent ''2,2,2-trifluoroethanol'' (Some ''FC(F)(F)CO'')
       (Some [''2,2,2-trifluoroethanol''])
       [(''orca'', ''2,2,2-trifluoroethanol''), (''g09'', ''2,2,2-TriFluoroEthanol''), (''nwchem'', ''tfe222''), (''mopac'', ''2,2,2-trifluoroethanol''), (''qchem'', ''ethanol'')],
     Solvent_init ImplicitSolvent ''fluorobenzene'' (Some ''FC1=CC=CC=C1'')
       (Some [''fluorobenzene'', ''phenyl fluoride'', ''c6h5f''])
       [(''orca'', ''fluorobenzene''), (''g09'', ''FluoroBenzene''), (''nwchem'', ''c6h5f''), (''mopac'', ''fluorobenzene''), (''qchem'', ''benzene'')],
     Solvent_init ImplicitSolvent ''2,2,4-trimethylpentane'' (Some ''CC(C)(C)CC(C)C'')
       (Some [''2,2,4-trimethylpentane'', ''isooctane''])
       [(''orca'', ''2,2,4-trimethylpentane''), (''g09'', ''2,2,4-TriMethylPentane''), (''nwchem'', ''isoctane''), (''mopac'', ''2,2,4-trimethylpentane''), (''qchem'', ''2,2,4-trimethylpentane'')],
     Solvent_init ImplicitSolvent ''formamide'' (Some ''O=CN'')
       (Some [''formamide''])
       [(''orca'', ''formamide''), (''g09'', ''Formamide''), (''nwchem'', ''formamid''), (''mopac'', ''formamide''), (''qchem'', ''formamide'')],
     Solvent_init ImplicitSolvent ''2,4-dimethylpentane'' (Some ''CC(C)CC(C)C'')
       (Some [''2,4-dimethylpentane'', ''diisopropylmethane''])
       [(''orca'', ''2,4-dimethylpentane''), (''g09'', ''2,4-DiMethylPentane''), (''nwchem'', ''dmepen24''), (''mopac'', ''2,4-dimethylpentane''), (''qchem'', ''2,4-dimethylpentane'')],
     Solvent_init ImplicitSolvent ''2,4-dimethylpyridine'' (Some ''CC1=CC(C)=NC=C1'')
       (Some [''2,4-dimethylpyridine'', ''2,4-lutidine''])
       [(''orca'', ''2,4-dimethylpyridine''), (''g09'', ''2,4-DiMethylPyridine''), (''nwchem'', ''dmepyr24''), (''mopac'', ''2,4-dimethylpyridine''), (''qchem'', ''2,4-dimethylpyridine'')],
     Solvent_init ImplicitSolvent ''2,6-dimethylpyridine'' (Some ''CC1=CC=CC(C)=N1'')
       (Some [''2,6-dimethylpyridine'', ''2,6-lutidine'', ''lutidine''])
       [(''orca'', ''2,6-dimethylpyridine''), (''g09'', ''2,6-DiMethylPyridine''), (''nwchem'', ''dmepyr26''), (''mopac'', ''2,6-dimethylpyridine''), (''qchem'', ''2,6-dimethylpyridine'')],
     Solvent_init ImplicitSolvent ''n-hexadecane'' (Some ''CCCCCCCCCCCCCCCC'')
       (Some [''n-hexadecane'', ''hexadecane''])
       [(''orca'', ''n-hexadecane''), (''g09'', ''n-Hexadecane''), (''nwchem'', ''hexadecn''), (''mopac'', ''hexadecane''), (''qchem'', ''decane'')],
     Solvent_init ImplicitSolvent ''dimethyl disulfide'' (Some ''CSSC'')
       (Some [''dimethyl disulfide'', ''dmds'', ''methyl disulfide''])
       [(''orca'', ''dimethyl disulfide''), (''g09'', ''DiMethylDiSulfide''), (''nwchem'', ''dmds''), (''mopac'', ''dimethyl disulfide'')],
     Solvent_init ImplicitSolvent ''ethyl methanoate'' (Some ''O=COCC'')
       (Some [''ethyl methanoate'', ''ethyl formate'', ''etome''])
       [(''orca'', ''ethyl methanoate''), (''g09'', ''EthylMethanoate''), (''nwchem'', ''etome''), (''mopac'', ''ethyl methanoate'')],
     Solvent_init ImplicitSolvent ''ethyl phenyl ether'' (Some ''CCOC1=CC=CC=C1'')
       (Some [''ethyl phenyl ether'', ''phenetole'', ''ethoxybenzene''])
       [(''orca'', ''ethyl phenyl ether''), (''g09'', ''EthylPhenylEther''), (''nwchem'', ''phentol''), (''mopac'', ''phenetole''), (''qchem'', ''benzene'')],
     Solvent_init ImplicitSolvent ''formic acid'' (Some ''O=CO'')
       (Some [''formic acid'', ''methanoic acid''])
       [(''orca'', ''formic acid''), (''g09'', ''FormicAcid''), (''nwchem'', ''formacid''), (''mopac'', ''formic acid''), (''qchem'', ''formic acid'')],
     Solvent_init ImplicitSolvent ''hexanoic acid'' (Some ''CCCCCC(O)=O'')
       (Some [''hexanoic acid'', ''caproic acid''])
       [(''orca'', ''hexanoic acid''), (''g09'', ''HexanoicAcid''), (''nwchem'', ''hexnacid''), (''mopac'', ''hexanoic acid''), (''qchem'', ''hexanoic acid'')],
     Solvent_init ImplicitSolvent ''2-chlorobutane'' (Some ''CC(Cl)CC'')
       (Some [''2-chlorobutane'', ''sec-butyl chloride''])
       [(''orca'', ''2-chlorobutane''), (''g09'', ''2-ChloroButane''), (''nwchem'', ''secbutcl''), (''mopac'', ''2-chlorobutane''), (''qchem'', ''2-chlorobutane'')],
     Solvent_init ImplicitSolvent ''2-heptanone'' (Some ''CC(CCCCC)=O'')
       (Some [''2-heptanone'', ''heptan-2-one''])
       [(''orca'', ''2-heptanone''), (''g09'', ''2-Heptanone''), (''nwchem'', ''heptnon2''), (''mopac'', ''2-heptanone''), (''qchem'', ''2-heptanone'')],
     Solvent_init ImplicitSolvent ''2-hexanone'' (Some ''CC(CCCC)=O'')
       (Some [''2-hexanone'', ''hexan-2-one''])
       [(''orca'', ''2-hexanone''), (''g09'', ''2-Hexanone''), (''nwchem'', ''hexanon2''), (''mopac'', ''2-hexanone''), (''qchem'', ''2-hexanone'')],
     Solvent_init ImplicitSolvent ''2-methoxyethanol'' (Some ''COCCO'')
       (Some [''2-methoxyethanol'', ''egme''])
       [(''orca'', ''2-methoxyethanol''), (''g09'', ''2-MethoxyEthanol''), (''nwchem'', ''egme''), (''mopac'', ''2-methoxyethanol''), (''qchem'', ''ethanol'')],
     Solvent_init ImplicitSolvent ''2-methyl-1-propanol'' (Some ''CC(C)CO'')
       (Some [''2-methyl-1-propanol'', ''isobutanol''])
       [(''orca'', ''2-methyl-1-propanol''), (''g09'', ''2-Methyl-1-Propanol''), (''nwchem'', ''isobutol''), (''mopac'', ''isobutanol''), (''qchem'', ''1-propanol'')],
     Solvent_init ImplicitSolvent ''2-methyl-2-propanol'' (Some ''CC(O)(C)C'')
       (Some [''2-methyl-2-propanol'', ''tert-butanol''])
       [(''orca'', ''2-methyl-2-propanol''), (''g09'', ''2-Methyl-2-Propanol''), (''nwchem'', ''terbutol''), (''mopac'', ''tertbutanol''), (''qchem'', ''2-propanol'')],
     Solvent_init ImplicitSolvent ''2-methylpentane'' (Some ''CC(C)CCC'')
       (Some [''2-methylpentane'', ''isohexane''])
       [(''orca'', ''2-methylpentane''), (''g09'', ''2-MethylPentane''), (''nwchem'', ''isohexan''), (''mopac'', ''2-methylpentane''), (''qchem'', ''2-methylpentane'')],
     Solvent_init ImplicitSolvent ''2-methylpyridine'' (Some ''CC1=NC=CC=C1'')
       (Some [''2-methylpyridine'', ''2-picoline''])
       [(''orca'', ''2-methylpyridine''), (''g09'', ''2-MethylPyridine''), (''nwchem'', ''mepyrid2''), (''mopac'', ''2-methylpyridine''), (''qchem'', ''2-methylpyridine'')],
     Solvent_init ImplicitSolvent ''2-nitropropane'' (Some ''CC([N+]([O-])=O)C'')
       (Some [''2-nitropropane''])
       [(''orca'', ''2-nitropropane''), (''g09'', ''2-NitroPropane''), (''nwchem'', ''ntrprop2''), (''mopac'', ''2-nitropropane''), (''qchem'', ''2-nitropropane'')],
     Solvent_init ImplicitSolvent ''2-octanone'' (Some ''CC(CCCCCC)=O'')
       (Some [''2-octanone'', ''octan-2-one''])
       [(''orca'', ''2-octanone''), (''g09'', ''2-Octanone''), (''nwchem'', ''octanon2''), (''mopac'', ''2-octanone''), (''qchem'', ''2-octanone'')],
     Solvent_init ImplicitSolvent ''2-pentanone'' (Some ''CC(CCC)=O'')
       (Some [''2-pentanone'', ''pentan-2-one''])
       [(''orca'', ''2-pentanone''), (''g09'', ''2-Pentanone''), (''nwchem'', ''pentnon2''), (''mopac'', ''2-pentanone''), (''qchem'', ''2-pentanone'')],
     Solvent_init ImplicitSolvent ''iodobenzene'' (Some ''IC1=CC=CC=C1'')
       (Some [''iodobenzene'', ''phenyl iodide''])
       [(''orca'', ''iodobenzene''), (''g09'', ''IodoBenzene''), (''nwchem'', ''c6h5i''), (''mopac'', ''iodobenzene''), (''qchem'', ''benzene'')],
     Solvent_init ImplicitSolvent ''iodoethane'' (Some ''CCI'')
       (Some [''iodoethane'', ''ethyl iodide''])
       [(''orca'', ''iodoethane''), (''g09'', ''IodoEthane''), (''nwchem'', ''c2h5i''), (''mopac'', ''iodoethane''), (''qchem'', ''iodoethane'')],
     Solvent_init ImplicitSolvent ''iodomethane'' (Some ''CI'')
       (Some [''iodomethane'', ''methyl iodide'', ''mei'', ''ch3i''])
       [(''orca'', ''iodomethane''), (''g09'', ''IodoMethane''), (''nwchem'', ''ch3i''), (''mopac'', ''iodomethane''), (''qchem'', ''iodomethane'')],
     Solvent_init ImplicitSolvent ''isopropylbenzene'' (Some ''CC(C1=CC=CC=C1)C'')
       (Some [''isopropylbenzene'', ''cumene''])
       [(''orca'', ''isopropylbenzene''), (''g09'', ''IsoPropylBenzene''), (''nwchem'', ''cumene''), (''mopac'', ''isopropylbenzene''), (''qchem'', ''benzene'')],
     Solvent_init ImplicitSolvent ''p-isopropyltoluene'' (Some ''CC1=CC=C(C(C)C)C=C1'')
       (Some [''p-isopropyltoluene'', ''para-isopropyltoluene'', ''p-cymene''])
       [(''orca'', ''p-isopropyltoluene''), (''g09'', ''p-IsoPropylToluene''), (''nwchem'', ''p-cymene''), (''mopac'', ''p-cymene''), (''qchem'', ''isopropyltoluene'')],
     Solvent_init ImplicitSolvent ''mesitylene'' (Some ''CC1=CC(C)=CC(C)=C1'')
       (Some [''mesitylene''])
       [(''orca'', ''mesitylene''), (''g09'', ''Mesitylene''), (''nwchem'', ''mesityln''), (''mopac'', ''mesitylene''), (''qchem'', ''mesitylene'')],
     Solvent_init ImplicitSolvent ''methyl benzoate'' (Some ''O=C(OC)C1=CC=CC=C1'')
       (Some [''methyl benzoate''])
       [(''orca'', ''methyl benzoate''), (''g09'', ''MethylBenzoate''), (''nwchem'', ''mebnzate''), (''mopac'', ''methyl benzoate'')],
     Solvent_init ImplicitSolvent ''methyl butanoate'' (Some ''CCCC(OC)=O'')
       (Some [''methyl butanoate'', ''methyl butyrate''])
       [(''orca'', ''methyl butanoate''), (''g09'', ''MethylButanoate''), (''nwchem'', ''mebutate''), (''mopac'', ''methyl butanoate'')],
     Solvent_init ImplicitSolvent ''methyl ethanoate'' (Some ''CC(OC)=O'')
       (Some [''methyl ethanoate'', ''methyl acetate''])
       [(''orca'', ''methyl ethanoate''), (''g09'', ''MethylEthanoate''), (''nwchem'', ''meacetat''), (''mopac'', ''methyl acetate'')],
     Solvent_init ImplicitSolvent ''methyl methanoate'' (Some ''O=COC'')
       (Some [''methyl methanoate'', ''methyl formate''])
       [(''orca'', ''methyl methanoate''), (''g09'', ''MethylMethanoate''), (''nwchem'', ''meformat''), (''mopac'', ''methyl formate'')],
     Solvent_init ImplicitSolvent ''methyl propanoate'' (Some ''CCC(OC)=O'')
       (Some [''methyl propanoate'', ''methyl propionate''])
       [(''orca'', ''methyl propanoate''), (''g09'', ''MethylPropanoate''), (''nwchem'', ''mepropyl''), (''mopac'', ''methyl propanoate'')],
     Solvent_init ImplicitSolvent ''n-methylaniline'' (Some ''CNC1=CC=CC=C1'')
       (Some [''n-methylaniline'', ''nma''])
       [(''orca'', ''n-methylaniline''), (''g09'', ''n-MethylAniline''), (''nwchem'', ''nmeaniln''), (''mopac'', ''n-methylaniline''), (''qchem'', ''aniline'')],
     Solvent_init ImplicitSolvent ''methylcyclohexane'' (Some ''CC1CCCCC1'')
       (Some [''methylcyclohexane''])
       [(''orca'', ''methylcyclohexane''), (''g09'', ''MethylCycloHexane''), (''nwchem'', ''mecychex''), (''mopac'', ''methylcyclohexane''), (''qchem'', ''cyclohexane'')],
     Solvent_init ImplicitSolvent ''n-methylformamide (e/z mixture)'' (Some ''O=CNC'')
       (Some [''n-methylformamide'', ''n-methylformamide (e/z mixture)'', ''n-methylformamide mixture'', ''n-methylformamide mix''])
       [(''orca'', ''n-methylformamide (e/z mixture)''), (''g09'', ''n-MethylFormamide-mixture''), (''nwchem'', ''nmfmixtr''), (''mopac'', ''nmfmixtr''), (''qchem'', ''formamide'')],
     Solvent_init ImplicitSolvent ''nitrobenzene'' (Some ''O=[N+](C1=CC=CC=C1)[O-]'')
       (Some [''nitrobenzene'', ''phno2''])
       [(''orca'', ''nitrobenzene''), (''g09'', ''NitroBenzene''), (''nwchem'', ''c6h5no2''), (''mopac'', ''nitrobenzene''), (''qchem'', ''benzene'')],
     Solvent_init ImplicitSolvent ''nitroethane'' (Some ''CC[N+]([O-])=O'')
       (Some [''nitroethane'', ''etno2''])
       [(''orca'', ''nitroethane''), (''g09'', ''NitroEthane''), (''nwchem'', ''c2h5no2''), (''mopac'', ''nitroethane''), (''qchem'', ''nitroethane'')],
     Solvent_init ImplicitSolvent ''nitromethane'' (Some ''C[N+]([O-])=O'')
       (Some [''nitromethane'', ''meno2'', ''ch3no2''])
       [(''orca'', ''nitromethane''), (''g09'', ''NitroMethane''), (''nwchem'', ''ch3no2''), (''mopac'', ''nitromethane''), (''qchem'', ''nitromethane'')],
     Solvent_init ImplicitSolvent ''o-nitrotoluene'' (Some ''CC1=CC=CC=C1[N+]([O-])=O'')
       (Some [''o-nitrotoluene'', ''ortho-nitrotoluene''])
       [(''orca'', ''o-nitrotoluene''), (''g09'', ''o-NitroToluene''), (''nwchem'', ''ontrtolu''), (''mopac'', ''o-nitrotoluene''), (''qchem'', ''o-nitrotoluene'')],
     Solvent_init ImplicitSolvent ''n-nonane'' (Some ''CCCCCCCCC'')
       (Some [''n-nonane'', ''nonane''])
       [(''orca'', ''n-nonane''), (''g09'', ''n-Nonane''), (''nwchem'', ''nonane''), (''mopac'', ''n-nonane''), (''qchem'', ''nonane'')],
     Solvent_init ImplicitSolvent ''n-octane'' (Some ''CCCCCCCC'')
       (Some [''n-octane'', ''octane''])
       [(''orca'', ''n-octane''), (''g09'', ''n-Octane''), (''nwchem'', ''octane''), (''mopac'', ''n-octane''), (''qchem'', ''octane'')],
     Solvent_init ImplicitSolvent ''n-pentadecane'' (Some ''CCCCCCCCCCCCCCC'')
       (Some [''n-pentadecane'', ''pentadecane''])
       [(''orca'', ''n-pentadecane''), (''g09'', ''n-Pentadecane''), (''nwchem'', ''pentdecn''), (''mopac'', ''n-pentadecane''), (''qchem'', ''decane'')],
     Solvent_init ImplicitSolvent ''pentanal'' (Some ''CCCCC=O'')
       (Some [''pentanal''])
       [(''orca'', ''pentanal''), (''g09'', ''Pentanal''), (''nwchem'', ''pentanal''), (''mopac'', ''pentanal''), (''qchem'', ''pentanal'')],
     Solvent_init ImplicitSolvent ''pentanoic acid'' (Some ''CCCCC(O)=O'')
       (Some [''pentanoic acid'', ''valeric acid''])
       [(''orca'', ''pentanoic acid''), (''g09'', ''PentanoicAcid''), (''nwchem'', ''pentacid''), (''mopac'', ''pentanoic acid''), (''qchem'', ''pentanoic acid'')],
     Solvent_init ImplicitSolvent ''pentyl ethanoate'' (Some ''CC(OCCCCC)=O'')
       (Some [''pentyl ethanoate'', ''pentyl acetate''])
       [(''orca'', ''pentyl ethanoate''), (''g09'', ''PentylEthanoate''), (''nwchem'', ''pentacet''), (''mopac'', ''pentyl acetate'')],
     Solvent_init ImplicitSolvent ''pentyl amine'' (Some ''NCCCCC'')
       (Some [''pentyl amine'', ''pentylamine'', ''1-aminopentane''])
       [(''orca'', ''pentylamine''), (''g09'', ''PentylAmine''), (''nwchem'', ''pentamin''), (''mopac'', ''pentylamine''), (''qchem'', ''pentane'')],
     Solvent_init ImplicitSolvent ''perfluorobenzene'' (Some ''FC1=C(F)C(F)=C(F)C(F)=C1F'')
       (Some [''perfluorobenzene'', ''pfb'', ''c6f6'', ''hexafluorobenzene''])
       [(''orca'', ''perfluorobenzene''), (''g09'', ''PerFluoroBenzene''), (''nwchem'', ''pfb''), (''mopac'', ''perfluorobenzene''), (''qchem'', ''benzene'')],
     Solvent_init ImplicitSolvent ''propanal'' (Some ''CCC=O'')
       (Some [''propanal''])
       [(''orca'', ''propanal''), (''g09'', ''Propanal''), (''nwchem'', ''propanal''), (''mopac'', ''propanal''), (''qchem'', ''propanal'')],
     Solvent_init ImplicitSolvent ''propanoic acid'' (Some ''CCC(O)=O'')
       (Some [''propanoic acid'', ''propionic acid''])
       [(''orca'', ''propanoic acid''), (''g09'', ''PropanoicAcid''), (''nwchem'', ''propacid''), (''mopac'', ''propanoic acid''), (''qchem'', ''propanoic acid'')],
     Solvent_init ImplicitSolvent ''propanenitrile'' (Some ''CCC#N'')
       (Some [''propanenitrile'', ''cyanoethane'', ''ethyl cyanide'', ''propanonitrile''])
       [(''orca'', ''propanonitrile''), (''g09'', ''PropanoNitrile''), (''nwchem'', ''propntrl''), (''mopac'', ''cyanoethane''), (''qchem'', ''propanonitrile'')],
     Solvent_init ImplicitSolvent ''propyl ethanoate'' (Some ''CC(OCCC)=O'')
       (Some [''propyl ethanoate'', ''propyl acetate''])
       [(''orca'', ''propyl ethanoate''), (''g09'', ''PropylEthanoate''), (''nwchem'', ''propacet''), (''mopac'', ''propyl acetate'')],
     Solvent_init ImplicitSolvent ''propyl amine'' (Some ''NCCC'')
       (Some [''propyl amine'', ''propylamine'', ''1-aminopropane''])
       [(''orca'', ''propylamine''), (''g09'', ''PropylAmine''), (''nwchem'', ''propamin''), (''mopac'', ''propylamine''), (''qchem'', ''propylamine'')],
     Solvent_init ImplicitSolvent ''tetrachloroethene'' (Some ''Cl/C(Cl)=C(Cl)/Cl'')
       (Some [''tetrachloroethene'', ''perchloroethene'', ''pce'', ''c2cl4''])
       [(''orca'', ''tetrachloroethene''), (''g09'', ''TetraChloroEthene''), (''nwchem'', ''c2cl4''), (''mopac'', ''tetrachloroethene''), (''qchem'', ''tetrachloroethene'')],
     Solvent_init ImplicitSolvent ''tetrahydrothiophene-s,s-dioxide'' (Some ''O=S1(CCCC1)=O'')
       (Some [''tetrahydrothiophene-s,s-dioxide'', ''sulfolane''])
       [(''orca'', ''tetrahydrothiophene-s,s-dioxide''), (''g09'', ''TetraHydroThiophene-s,s-dioxide''), (''nwchem'', ''sulfolan''), (''mopac'', ''sulfolane''), (''qchem'', ''thiophene'')],
     Solvent_init ImplicitSolvent ''tetralin'' (Some ''C12=C(CCCC2)C=CC=C1'')
       (Some [''tetralin'', ''1,2,3,4-tetrahydronaphthalene'', ''tetrahydronaphthalene''])
       [(''orca'', ''tetralin''), (''g09'', ''Tetralin''), (''nwchem'', ''tetralin''), (''mopac'', ''tetralin''), (''qchem'', ''tetralin'')],
     Solvent_init ImplicitSolvent ''thiophene'' (Some ''C1=CC=CS1'')
       (Some [''thiophene''])
       [(''orca'', ''thiophene''), (''g09'', ''Thiophene''), (''nwchem'', ''thiophen''), (''mopac'', ''thiophene''), (''qchem'', ''thiophene'')],
     Solvent_init ImplicitSolvent ''thiophenol'' (Some ''SC1=CC=CC=C1'')
       (Some [''thiophenol'', ''phsh'', ''benzenethiol''])
       [(''orca'', ''thiophenol''), (''g09'', ''Thiophenol''), (''nwchem'', ''phsh''), (''mopac'', ''thiophenol''), (''qchem'', ''benzene'')],
     Solvent_init ImplicitSolvent ''tributylphosphate'' (Some ''O=P(OCCCC)(OCCCC)OCCCC'')
       (Some [''tributylphopshate'', ''tbp'', ''tributyl phopshate''])
       [(''orca'', ''tributylphopshate''), (''g09'', ''TriButylPhosphate''), (''nwchem'', ''tbp''), (''mopac'', ''tbp''), (''qchem'', ''tributylphosphate'')],
     Solvent_init ImplicitSolvent ''trichloroethene'' (Some ''Cl/C(Cl)=C/Cl'')
       (Some [''trichloroethene'', ''tce''])
       [(''orca'', ''trichloroethene''), (''g09'', ''TriChloroEthene''), (''nwchem'', ''tce''), (''mopac'', ''tce''), (''qchem'', ''trichloroethene'')],
     Solvent_init ImplicitSolvent ''triethylamine'' (Some ''CCN(CC)CC'')
       (Some [''triethylamine'', ''et3n''])
       [(''orca'', ''triethylamine''), (''g09'', ''TriEthylAmine''), (''nwchem'', ''et3n''), (''mopac'', ''triethylamine''), (''qchem'', ''triethylamine'')],
     Solvent_init ImplicitSolvent ''n-undecane'' (Some ''CCCCCCCCCCC'')
       (Some [''n-undecane'', ''undecane''])
       [(''orca'', ''n-undecane''), (''g09'', ''n-Undecane''), (''nwchem'', ''undecane''), (''mopac'', ''n-undecane''), (''qchem'', ''decane'')],
     Solvent_init ImplicitSolvent ''xylene mixture'' (Some ''CC1=CC=C(C)C=C1'')
       (Some [''xylene mix'', ''xylene (mix)'', ''xylene mixture'', ''xylene (mixture)'', ''xylene''])
       [(''orca'', ''xyzlene (mixture)''), (''g09'', ''Xylene-mixture''), (''nwchem'', ''xylenemx''), (''mopac'', ''xylene mix'')],
     Solvent_init ImplicitSolvent ''m-xylene'' (Some ''CC1=CC=CC(C)=C1'')
       (Some [''m-xylene'', ''meta-xylene'', ''1,3-xylene''])
       [(''orca'', ''m-xylene''), (''g09'', ''m-Xylene''), (''nwchem'', ''m-xylene''), (''mopac'', ''m-xylene''), (''qchem'', ''m-xylene'')],
     Solvent_init ImplicitSolvent ''o-xylene'' (Some ''CC1=CC=CC=C1C'')
       (Some [''o-xylene'', ''ortho-xylene'', ''1,2-xylene''])
       [(''orca'', ''o-xylene''), (''g09'', ''o-Xylene''), (''nwchem'', ''o-xylene''), (''mopac'', ''o-xylene''), (''qchem'', ''o-xylene'')],
     Solvent_init ImplicitSolvent ''p-xylene'' (Some ''CC1=CC=C(C)C=C1'')
       (Some [''p-xylene'', ''para-xylene'', ''1,4-xylene''])
       [(''orca'', ''p-xylene''), (''g09'', ''p-Xylene''), (''nwchem'', ''p-xylene''), (''mopac'', ''p-xylene''), (''qchem'', ''p-xylene'')],
     Solvent_init ImplicitSolvent ''2-propanol'' (Some ''CC(O)C'')
       (Some [''2-propanol'', ''propan-2-ol'', ''isopropanol'', ''isopropyl alcohol''])
       [(''orca'', ''2-propanol''), (''g09'', ''2-Propanol''), (''nwchem'', ''propnol2''), (''mopac'', ''2-propanol''), (''qchem'', ''2-propanol'')],
     Solvent_init ImplicitSolvent ''2-propen-1-ol'' (Some ''C=CCO'')
       (Some [''2-propen-1-ol'', ''allyl alcohol''])
       [(''orca'', ''2-propen-1-ol''), (''g09'', ''2-Propen-1-ol''), (''nwchem'', ''propenol''), (''mopac'', ''2-propen-1-ol''), (''qchem'', ''2-propen-1-ol'')],
     Solvent_init ImplicitSolvent ''e-2-pentene'' (Some ''C/C=C/CC'')
       (Some [''e-2-pentene'', ''e-pent-2-ene''])
       [(''orca'', ''e-2-pentene''), (''g09'', ''e-2-Pentene''), (''nwchem'', ''e2penten''), (''mopac'', ''e-2-pentene''), (''qchem'', ''E-2-pentene'')],
     Solvent_init ImplicitSolvent ''3-methylpyridine'' (Some ''CC1=CC=CN=C1'')
       (Some [''3-methylpyridine'', ''3-picoline''])
       [(''orca'', ''3-methylpyridine''), (''g09'', ''3-MethylPyridine''), (''nwchem'', ''mepyrid3''), (''mopac'', ''3-methylpyridine''), (''qchem'', ''3-methylpyridine'')],
     Solvent_init ImplicitSolvent ''3-pentanone'' (Some ''CCC(CC)=O'')
       (Some [''3-pentanone'', ''pentan-3-one''])
       [(''orca'', ''3-pentanone''), (''g09'', ''3-Pentanone''), (''nwchem'', ''pentnon3''), (''mopac'', ''3-pentanone''), (''qchem'', ''3-pentanone'')],
     Solvent_init ImplicitSolvent ''4-heptanone'' (Some ''CCCC(CCC)=O'')
       (Some [''4-heptanone'', ''heptan-4-one''])
       [(''orca'', ''4-heptanone''), (''g09'', ''4-Heptanone''), (''nwchem'', ''heptnon4''), (''mopac'', ''4-heptanone''), (''qchem'', ''4-heptanone'')],
     Solvent_init ImplicitSolvent ''4-methyl-2-pentanone'' (Some ''CC(CC(C)C)=O'')
       (Some [''4-methyl-2-pentanone'', ''methyl isobutyl ketone''])
       [(''orca'', ''4-methyl-2-pentanone''), (''g09'', ''4-Methyl-2-Pentanone''), (''nwchem'', ''mibk''), (''mopac'', ''mibk''), (''qchem'', ''2-pentanone'')],
     Solvent_init ImplicitSolvent ''4=methylpyridine'' (Some ''CC1=CC=NC=C1'')
       (Some [''4-methylpyridine'', ''4-picoline''])
       [(''orca'', ''4-methylpyridine''), (''g09'', ''4-MethylPyridine''), (''nwchem'', ''mepyrid4''), (''mopac'', ''4-methylpyridine''), (''qchem'', ''4-methylpyridine'')],
     Solvent_init ImplicitSolvent ''5-nonanone'' (Some ''CCCCC(CCCC)=O'')
       (Some [''5-nonanone'', ''nonan-5-one''])
       [(''orca'', ''5-nonanone''), (''g09'', ''5-Nonanone''), (''nwchem'', ''nonanone''), (''mopac'', ''5-nonanone''), (''qchem'', ''5-nonanone'')],
     Solvent_init ImplicitSolvent ''benzyl alcohol'' (Some ''OCC1=CC=CC=C1'')
       (Some [''benzyl alcohol'', ''phenylmethanol'', ''bnoh''])
       [(''orca'', ''benzyl alcohol''), (''g09'', ''BenzylAlcohol''), (''nwchem'', ''benzalcl''), (''mopac'', ''benzyl alcohol''), (''qchem'', ''benzyl alcohol'')],
     Solvent_init ImplicitSolvent ''butanoic acid'' (Some ''CCCC(O)=O'')
       (Some [''butanoic acid'', ''butyric acid''])
       [(''orca'', ''butanoic acid''), (''g09'', ''ButanoicAcid''), (''nwchem'', ''butacid''), (''mopac'', ''butanoic acid'')],
     Solvent_init ImplicitSolvent ''butanenitrile'' (Some ''CCCC#N'')
       (Some [''butanenitrile'', ''butyronitrile'', ''butanonitrile''])
       [(''orca'', ''butanonitrile''), (''g09'', ''ButanoNitrile''), (''nwchem'', ''butantrl''), (''mopac'', ''butanenitrile''), (''qchem'', ''butanonitrile'')],
     Solvent_init ImplicitSolvent ''butyl ethanoate'' (Some ''CC(OCCCC)=O'')
       (Some [''butyl ethanoate'', ''butyl acetate''])
       [(''orca'', ''butyl ethanoate''), (''g09'', ''ButylEthanoate''), (''nwchem'', ''butile''), (''mopac'', ''butyl acetate'')],
     Solvent_init ImplicitSolvent ''butylamine'' (Some ''NCCCC'')
       (Some [''butylamine'', ''butan-1-amine''])
       [(''orca'', ''butylamine''), (''g09'', ''ButylAmine''), (''nwchem'', ''nba''), (''mopac'', ''butylamine''), (''qchem'', ''butylamine'')],
     Solvent_init ImplicitSolvent ''n-butylbenzene'' (Some ''CCCCC1=CC=CC=C1'')
       (Some [''n-butylbenzene'', ''butylbenzene'', ''phenylbutane''])
       [(''orca'', ''n-butylbenzene''), (''g09'', ''n-ButylBenzene''), (''nwchem'', ''nbutbenz''), (''mopac'', ''n-butylbenzene''), (''qchem'', ''benzene'')],
     Solvent_init ImplicitSolvent ''sec-butylbenzene'' (Some ''CCC(C1=CC=CC=C1)C'')
       (Some [''sec-butylbenzene'', ''s-butylbenzene''])
       [(''orca'', ''sec-butylbenzene''), (''g09'', ''sec-ButylBenzene''), (''nwchem'', ''sbutbenz''), (''mopac'', ''s-butylbenzene''), (''qchem'', ''benzene'')],
     Solvent_init ImplicitSolvent ''tert-butylbenzene'' (Some ''CC(C1=CC=CC=C1)(C)C'')
       (Some [''tert-butylbenzene'', ''t-butylbenzene''])
       [(''orca'', ''tert-butylbenzene''), (''g09'', ''tert-ButylBenzene''), (''nwchem'', ''tbutbenz''), (''mopac'', ''t-butylbenzene''), (''qchem'', ''benzene'')],
     Solvent_init ImplicitSolvent ''o-chlorotoluene'' (Some ''CC1=CC=CC=C1Cl'')
       (Some [''o-chlorotoluene'', ''ortho-chlorotoluene'', ''2-chlorotoluene''])
       [(''orca'', ''o-chlorotoluene''), (''g09'', ''o-ChloroToluene''), (''nwchem'', ''ocltolue''), (''mopac'', ''o-chlorotoluene''), (''qchem'', ''chlorotoluene'')],
     Solvent_init ImplicitSolvent ''m-cresol'' (Some ''CC1=CC(O)=CC=C1'')
       (Some [''m-cresol'', ''meta-cresol'', ''3-methylphenol''])
       [(''orca'', ''m-cresol''), (''g09'', ''m-Cresol''), (''nwchem'', ''m-cresol''), (''mopac'', ''m-cresol''), (''qchem'', ''m-cresol'')],
     Solvent_init ImplicitSolvent ''o-cresol'' (Some ''CC1=CC=CC=C1O'')
       (Some [''o-cresol'', ''ortho-cresol'', ''2-methylphenol''])
       [(''orca'', ''o-cresol''), (''g09'', ''o-Cresol''), (''nwchem'', ''o-cresol''), (''mopac'', ''o-cresol''), (''qchem'', ''o-cresol'')],
     Solvent_init ImplicitSolvent ''cyclohexanone'' (Some ''O=C1CCCCC1'')
       (Some [''cyclohexanone''])
       [(''orca'', ''cyclohexanone''), (''g09'', ''CycloHexanone''), (''nwchem'', ''cychexon''), (''mopac'', ''cyclohexanone''), (''qchem'', ''cyclohexanone'')],
     Solvent_init ImplicitSolvent ''isoquinoline'' (Some ''C12=C(C=NC=C2)C=CC=C1'')
       (Some [''isoquinoline''])
       [(''g09'', ''IsoQuinoline''), (''mopac'', ''isoquinoline'')],
     Solvent_init ImplicitSolvent ''quinoline'' (Some ''C12=CC=CC=C1N=CC=C2'')
       (Some [''quinoline''])
       [(''g09'', ''Quinoline''), (''mopac'', ''quinoline'')],
     Solvent_init ImplicitSolvent ''argon'' (Some ''[Ar]'')
       (Some [''argon''])
       [(''g09'', ''Argon''), (''mopac'', ''argon'')],
     Solvent_init ImplicitSolvent ''krypton'' (Some ''[Kr]'')
       (Some [''krypton''])
       [(''g09'', ''Krypton''), (''mopac'', ''krypton'')],
     Solvent_init ImplicitSolvent ''xenon'' (Some ''[Xe]'')
       (Some [''xenon''])
       [(''g09'', ''Xenon''), (''mopac'', ''xenon'')]]"

definition initial_state :: module_state where
  "initial_state = \<lparr>objects = solvents_init, solvents = [0..<length solvents_init]\<rparr>"

subsection \<open>The dielectric table\<close>

text \<open>
  \<open>FloatLit m k\<close> is the float that the source writes as the decimal literal
  \<open>m / 10^k\<close>; no arithmetic is done on it.  The dict \<open>_solvents_and_dielectrics\<close> is the map
  of its items (no key is written twice).
\<close>

datatype pyfloat = FloatLit int nat

definition dielectric_items :: "(string \<times> pyfloat) list" where
  "dielectric_items =
    [(''acetic acid'', FloatLit 625 2),
     (''acetone'', FloatLit 2049 2),
     (''acetonitrile'', FloatLit 3569 2),
     (''benzene'', FloatLit 227 2),
     (''1-butanol'', FloatLit 1733 2),
     (''2-butanone'', FloatLit 1825 2),
     (''carbon tetrachloride'', FloatLit 223 2),
     (''chlorobenzene'', FloatLit 570 2),
     (''chloroform'', FloatLit 471 2),
     (''cyclohexane'', FloatLit 202 2),
     (''1,2-dichlorobenzene'', FloatLit 999 2),
     (''dichloromethane'', FloatLit 893 2),
     (''n,n-dimethylacetamide'', FloatLit 3778 2),
     (''n,n-dimethylformamide'', FloatLit 3722 2),
     (''1,4-dioxane'', FloatLit 221 2),
     (''ether'', FloatLit 424 2),
     (''ethyl acetate'', FloatLit 599 2),
     (''tce'', FloatLit 342 2),
     (''ethyl alcohol'', FloatLit 2485 2),
     (''heptane'', FloatLit 191 2),
     (''hexane'', FloatLit 188 2),
     (''pentane'', FloatLit 184 2),
     (''1-propanol'', FloatLit 2052 2),
     (''pyridine'', FloatLit 1298 2),
     (''tetrahydrofuran'', FloatLit 743 2),
     (''toluene'', FloatLit 237 2),
     (''water'', FloatLit 7836 2),
     (''cs2'', FloatLit 261 2),
     (''dmso'', FloatLit 4682 2),
     (''methanol'', FloatLit 3261 2),
     (''2-butanol'', FloatLit 1594 2),
     (''acetophenone'', FloatLit 1744 2),
     (''aniline'', FloatLit 689 2),
     (''anisole'', FloatLit 422 2),
     (''benzaldehyde'', FloatLit 1822 2),
     (''benzonitrile'', FloatLit 2559 2),
     (''benzyl chloride'', FloatLit 672 2),
     (''isobutyl bromide'', FloatLit 778 2),
     (''bromobenzene'', FloatLit 540 2),
     (''bromoethane'', FloatLit 901 2),
     (''bromoform'', FloatLit 425 2),
     (''bromooctane'', FloatLit 502 2),
     (''bromopentane'', FloatLit 627 2),
     (''butanal'', FloatLit 1345 2),
     (''1,1,1-trichloroethane'', FloatLit 708 2),
     (''cyclopentane'', FloatLit 196 2),
     (''1,1,2-trichloroethane'', FloatLit 719 2),
     (''cyclopentanol'', FloatLit 1699 2),
     (''1,2,4-trimethylbenzene'', FloatLit 237 2),
     (''cyclopentanone'', FloatLit 1358 2),
     (''1,2-dibromoethane'', FloatLit 493 2),
     (''1,2-dichloroethane'', FloatLit 1013 2),
     (''cis-decalin'', FloatLit 221 2),
     (''trans-decalin'', FloatLit 218 2),
     (''decalin'', FloatLit 220 2),
     (''1,2-ethanediol'', FloatLit 4025 2),
     (''decane'', FloatLit 198 2),
     (''dibromomethane'', FloatLit 723 2),
     (''dibutylether'', FloatLit 305 2),
     (''z-1,2-dichloroethene'', FloatLit 920 2),
     (''e-1,2-dichloroethene'', FloatLit 214 2),
     (''1-bromopropane'', FloatLit 805 2),
     (''2-bromopropane'', FloatLit 936 2),
     (''1-chlorohexane'', FloatLit 595 2),
     (''1-ChloroPentane'', FloatLit 650 2),
     (''1-chloropropane'', FloatLit 835 2),
     (''diethylamine'', FloatLit 358 2),
     (''decanol'', FloatLit 753 2),
     (''diiodomethane'', FloatLit 532 2),
     (''1-fluorooctane'', FloatLit 389 2),
     (''heptanol'', FloatLit 1132 2),
     (''cisdmchx'', FloatLit 206 2),
     (''diethyl sulfide'', FloatLit 573 2),
     (''diisopropyl ether'', FloatLit 338 2),
     (''hexanol'', FloatLit 1251 2),
     (''hexene'', FloatLit 207 2),
     (''hexyne'', FloatLit 262 2),
     (''iodobutane'', FloatLit 617 2),
     (''1-iodohexadecane'', FloatLit 353 2),
     (''diphenylether'', FloatLit 373 2),
     (''1-iodopentane'', FloatLit 570 2),
     (''1-iodopropane'', FloatLit 696 2),
     (''dipropylamine'', FloatLit 291 2),
     (''dodecane'', FloatLit 201 2),
     (''1-nitropropane'', FloatLit 2373 2),
     (''ethanethiol'', FloatLit 667 2),
     (''nonanol'', FloatLit 860 2),
     (''octanol'', FloatLit 986 2),
     (''pentanol'', FloatLit 1513 2),
     (''pentene'', FloatLit 199 2),
     (''ethylbenzene'', FloatLit 243 2),
     (''tbp'', FloatLit 818 2),
     (''2,2,2-trifluoroethanol'', FloatLit 2673 2),
     (''fluorobenzene'', FloatLit 542 2),
     (''2,2,4-trimethylpentane'', FloatLit 194 2),
     (''formamide'', FloatLit 10894 2),
     (''2,4-dimethylpentane'', FloatLit 189 2),
     (''2,4-dimethylpyridine'', FloatLit 941 2),
     (''2,6-dimethylpyridine'', FloatLit 717 2),
     (''hexadecane'', FloatLit 204 2),
     (''dimethyl disulfide'', FloatLit 960 2),
     (''ethyl methanoate'', FloatLit 833 2),
     (''phentole'', FloatLit 418 2),
     (''formic acid'', FloatLit 511 1),
     (''hexanoic acid'', FloatLit 26 1),
     (''2-chlorobutane'', FloatLit 839 2),
     (''2-heptanone'', FloatLit 1166 2),
     (''2-hexanone'', FloatLit 1414 2),
     (''2-methoxyethanol'', FloatLit 1720 2),
     (''isobutanol'', FloatLit 1678 2),
     (''tertbutanol'', FloatLit 1247 2),
     (''2-methylpentane'', FloatLit 189 2),
     (''2-methylpyridine'', FloatLit 995 2),
     (''2-nitropropane'', FloatLit 2565 2),
     (''2-octanone'', FloatLit 947 2),
     (''2-pentanone'', FloatLit 1520 2),
     (''iodobenzene'', FloatLit 455 2),
     (''iodoethane'', FloatLit 762 2),
     (''iodomethane'', FloatLit 687 2),
     (''isopropylbenzene'', FloatLit 237 2),
     (''p-cymene'', FloatLit 223 2),
     (''mesitylene'', FloatLit 227 2),
     (''methyl benzoate'', FloatLit 674 2),
     (''methyl butanoate'', FloatLit 556 2),
     (''methyl acetate'', FloatLit 686 2),
     (''methyl formate'', FloatLit 884 2),
     (''methyl propanoate'', FloatLit 608 2),
     (''n-methylaniline'', FloatLit 596 2),
     (''methylcyclohexane'', FloatLit 202 2),
     (''nmfmixtr'', FloatLit 18156 2),
     (''nitrobenzene'', FloatLit 3481 2),
     (''nitroethane'', FloatLit 2829 2),
     (''nitromethane'', FloatLit 3656 2),
     (''o-nitrotoluene'', FloatLit 2567 2),
     (''n-nonane'', FloatLit 196 2),
     (''n-octane'', FloatLit 194 2),
     (''n-pentadecane'', FloatLit 203 2),
     (''pentanal'', FloatLit 1000 2),
     (''pentanoic acid'', FloatLit 269 2),
     (''pentyl acetate'', FloatLit 473 2),
     (''pentylamine'', FloatLit 420 2),
     (''perfluorobenzene'', FloatLit 203 2),
     (''propanal'', FloatLit 1850 2),
     (''propanoic acid'', FloatLit 344 2),
     (''cyanoethane'', FloatLit 2932 2),
     (''propyl acetate'', FloatLit 552 2),
     (''propylamine'', FloatLit 499 2),
     (''tetrachloroethene'', FloatLit 227 2),
     (''sulfolane'', FloatLit 4396 2),
     (''tetralin'', FloatLit 277 2),
     (''thiophene'', FloatLit 273 2),
     (''thiophenol'', FloatLit 427 2),
     (''triethylamine'', FloatLit 238 2),
     (''n-undecane'', FloatLit 199 2),
     (''xylene mix'', FloatLit 329 2),
     (''m-xylene'', FloatLit 235 2),
     (''o-xylene'', FloatLit 255 2),
     (''p-xylene'', FloatLit 227 2),
     (''2-propanol'', FloatLit 1926 2),
     (''2-propen-1-ol'', FloatLit 1901 2),
     (''e-2-pentene'', FloatLit 205 2),
     (''3-methylpyridine'', FloatLit 1165 2),
     (''3-pentanone'', FloatLit 1678 2),
     (''4-heptanone'', FloatLit 1226 2),
     (''mibk'', FloatLit 1288 2),
     (''4-methylpyridine'', FloatLit 1196 2),
     (''5-nonanone'', FloatLit 106 1),
     (''benzyl alcohol'', FloatLit 1246 2),
     (''butanoic acid'', FloatLit 299 2),
     (''butanenitrile'', FloatLit 2429 2),
     (''butyl acetate'', FloatLit 499 2),
     (''butylamine'', FloatLit 462 2),
     (''n-butylbenzene'', FloatLit 236 2),
     (''s-butylbenzene'', FloatLit 234 2),
     (''t-butylbenzene'', FloatLit 234 2),
     (''o-chlorotoluene'', FloatLit 463 2),
     (''m-cresol'', FloatLit 1244 2),
     (''o-cresol'', FloatLit 676 2),
     (''cyclohexanone'', FloatLit 1562 2),
     (''isoquinoline'', FloatLit 1100 2),
     (''quinoline'', FloatLit 916 2),
     (''argon'', FloatLit 143 2),
     (''krypton'', FloatLit 152 2),
     (''xenon'', FloatLit 170 2)]"

definition solvents_and_dielectrics :: "string \<rightharpoonup> pyfloat" where
  "solvents_and_dielectrics = map_of dielectric_items"

text \<open>\<open>d[k]\<close> raises \<open>KeyError\<close> at a missing key.\<close>

definition getitem :: "(string \<rightharpoonup> 'v) \<Rightarrow> string \<Rightarrow> error + 'v" where
  "getitem d k = (case d k of None \<Rightarrow> Inl (KeyError k) | Some v \<Rightarrow> Inr v)"

text \<open>
  The property \<open>Solvent.dielectric\<close>, with the table it reads as a parameter.  The loop
  returns at the first alias that is a key; after the loop the miss is logged and the
  result is \<open>None\<close>.
\<close>

fun dielectric_loop :: "(string \<rightharpoonup> 'v) \<Rightarrow> string list \<Rightarrow> (error + 'v) option" where
  "dielectric_loop d [] = None"
| "dielectric_loop d (alias # rest) =
     (if d alias \<noteq> None then Some (getitem d alias) else dielectric_loop d rest)"

definition dielectric :: "(string \<rightharpoonup> 'v) \<Rightarrow> solvent \<Rightarrow> log \<times> (error + 'v option)" where
  "dielectric d self =
     (case dielectric_loop d (aliases self) of
        Some (Inl e) \<Rightarrow> ([], Inl e)
      | Some (Inr v) \<Rightarrow> ([], Inr (Some v))
      | None \<Rightarrow> ([''Could not find a dielectric for: '' @ name self @ ''. Returning None''],
                 Inr None))"

subsection \<open>Implicit to explicit conversion\<close>

text \<open>
  The file system and the coordinate reader are outside the module.  \<open>here\<close> is the
  directory of the module file, \<open>path_exists\<close> is \<open>os.path.exists\<close>, and
  \<open>xyz_file_to_atoms\<close> reads a file into atoms or raises.  \<open>path_join\<close> is
  \<open>os.path.join\<close> of \<open>posixpath\<close>, for two components.
\<close>

type_synonym atom = "string \<times> pyfloat \<times> pyfloat \<times> pyfloat"

record env =
  here :: string
  path_exists :: "string \<Rightarrow> bool"
  xyz_file_to_atoms :: "string \<Rightarrow> error + atom list"

definition path_join :: "string \<Rightarrow> string \<Rightarrow> string" where
  "path_join a b =
     (if take 1 b = ''/'' then b
      else if a = [] \<or> last a = CHR ''/'' then a @ b
      else a @ ''/'' @ b)"

definition xyz_path :: "env \<Rightarrow> string \<Rightarrow> string" where
  "xyz_path e nm = path_join (path_join (here e) ''lib'') (nm @ ''.xyz'')"

text \<open>
  Modelled from the spec: the class \<open>Species\<close> of \<open>autode.species.species\<close>, which is not
  part of this module.  The spec gives the constructor contract
  \<open>Structure(name, charge=0, multiplicity=1, atoms)\<close>: a record of the four arguments.
\<close>

record species =
  species_name :: string
  charge :: int
  mult :: int
  atoms :: "atom list"

definition Species_init :: "string \<Rightarrow> int \<Rightarrow> int \<Rightarrow> atom list \<Rightarrow> species" where
  "Species_init nm c m ats = \<lparr>species_name = nm, charge = c, mult = m, atoms = ats\<rparr>"

text \<open>
  Modelled from the spec: the class \<open>ExplicitSolvent\<close> of
  \<open>autode.solvent.explicit_solvent\<close>, which is not part of this module.  The spec's
  assembly holds the aliases of the originating record, the structure of one solvent
  molecule, the repetition count and an optional solute; the count must be a positive
  integer, and a value of zero or below is an invalid argument that is not coerced.
\<close>

record explicit_solvent =
  es_solvent :: species
  es_num :: int
  es_solute :: "species option"
  es_aliases :: "string list"

definition ExplicitSolvent_init ::
  "species \<Rightarrow> int \<Rightarrow> species option \<Rightarrow> string list \<Rightarrow> error + explicit_solvent" where
  "ExplicitSolvent_init solvent num solute als =
     (if num \<le> 0 then Inl (ValueError ''Must solvate with at least a single solvent molecule'')
      else Inr \<lparr>es_solvent = solvent, es_num = num, es_solute = solute, es_aliases = als\<rparr>)"

definition to_explicit :: "env \<Rightarrow> solvent \<Rightarrow> int \<Rightarrow> error + explicit_solvent" where
  "to_explicit e self num =
     (let xyz = xyz_path e (name self)
      in if \<not> path_exists e xyz
         then Inl (IOError (''Could not convert '' @ name self @ '' to explicit solvent ''
                             @ xyz @ '' did not exist''))
         else (case xyz_file_to_atoms e xyz of
                 Inl err \<Rightarrow> Inl err
               | Inr ats \<Rightarrow>
                   ExplicitSolvent_init (Species_init (name self) 0 1 ats) num None
                     (aliases self)))"

subsection \<open>get_solvent\<close>

text \<open>
  The result is \<open>None\<close>, a reference to the registry's own object (the loop returns
  \<open>solvent\<close> itself) or the new explicit solvent.  \<open>get_solvent_loop\<close> is the
  \<open>for solvent in solvents\<close> loop with the \<open>raise\<close> that follows it.  The loop is only
  entered with a count when the kind is explicit; a missing count there would reach the
  comparison of \<open>None\<close> with zero, a \<open>TypeError\<close>.
\<close>

datatype resolved = Registered ref | Converted explicit_solvent

fun get_solvent_loop ::
  "env \<Rightarrow> module_state \<Rightarrow> ref list \<Rightarrow> string \<Rightarrow> string \<Rightarrow> int option \<Rightarrow> error + resolved" where
  "get_solvent_loop e st [] solvent_name kind num =
     Inl (SolventNotFound (''No matching solvent in the library for '' @ solvent_name))"
| "get_solvent_loop e st (r # rest) solvent_name kind num =
     (let solvent = deref st r
      in if lower solvent_name \<notin> set (aliases solvent)
         then get_solvent_loop e st rest solvent_name kind num
         else if is_implicit solvent
         then (if kind = ''implicit'' then Inr (Registered r)
               else (case num of
                       None \<Rightarrow> Inl (TypeError ''num is None'')
                     | Some n \<Rightarrow> map_sum id Converted (to_explicit e solvent n)))
         else get_solvent_loop e st rest solvent_name kind num)"

definition get_solvent ::
  "env \<Rightarrow> module_state \<Rightarrow> string option \<Rightarrow> string \<Rightarrow> int option
     \<Rightarrow> log \<times> (error + resolved option)" where
  "get_solvent e st solvent_name kind0 num =
     (let kind = lower kind0
      in if kind \<notin> set [''explicit'', ''implicit'']
         then ([], Inl (ValueError (''Solvent must be explicit or implicit. Had: '' @ kind)))
         else (case solvent_name of
                 None \<Rightarrow> ([''Not requested any solvent - returning None''], Inr None)
               | Some nm \<Rightarrow>
                   if kind = ''explicit'' \<and> num = None
                   then ([], Inl (ValueError (''Requested an explicit solvent but number of explicit''
                                              @ '' solvent molecules was not defined'')))
                   else ([], map_sum id Some (get_solvent_loop e st (solvents st) nm kind num))))"

subsection \<open>Example environments\<close>

text \<open>
  Two file systems for the examples below: one that holds \<open>lib/water.xyz\<close> beside the
  module, with a water molecule in it, and one that holds no file at all.
\<close>

definition water_atoms :: "atom list" where
  "water_atoms =
     [(''O'', FloatLit 0 1, FloatLit 0 1, FloatLit 1173 4),
      (''H'', FloatLit 0 1, FloatLit 7572 4, FloatLit (- 4692) 4),
      (''H'', FloatLit 0 1, FloatLit (- 7572) 4, FloatLit (- 4692) 4)]"

definition lib_env :: env where
  "lib_env =
     \<lparr>here = ''/autode/solvent'',
      path_exists = (\<lambda>p. p = ''/autode/solvent/lib/water.xyz''),
      xyz_file_to_atoms =
        (\<lambda>p. if p = ''/autode/solvent/lib/water.xyz'' then Inr water_atoms
             else Inl (ExternalError ''XYZfileDidNotExist''))\<rparr>"

definition empty_env :: env where
  "empty_env =
     \<lparr>here = ''/autode/solvent'',
      path_exists = (\<lambda>p. False),
      xyz_file_to_atoms = (\<lambda>p. Inl (ExternalError ''XYZfileDidNotExist''))\<rparr>"

subsection \<open>Auxiliary notions\<close>

text \<open>
  \<open>matches st a r\<close>: the object behind \<open>r\<close> carries the alias \<open>a\<close> and is implicit; these
  are the two tests the loop of \<open>get_solvent\<close> makes.
\<close>

definition matches :: "module_state \<Rightarrow> string \<Rightarrow> ref \<Rightarrow> bool" where
  "matches st a r = (a \<in> set (aliases (deref st r)) \<and> is_implicit (deref st r))"

text \<open>
  A string as a binary numeral, bit by bit, so that two strings are compared from their
  first character on and the comparison stops at the first difference.  \<open>alias_codes\<close> are
  the codes of a record's aliases with the repetitions removed.
\<close>

definition bit_cons :: "bool \<Rightarrow> num \<Rightarrow> num" where
  "bit_cons b n = (if b then Num.Bit1 n else Num.Bit0 n)"

fun str_num :: "string \<Rightarrow> num" where
  "str_num [] = Num.One"
| "str_num (Char b0 b1 b2 b3 b4 b5 b6 b7 # cs) =
     bit_cons b0 (bit_cons b1 (bit_cons b2 (bit_cons b3 (bit_cons b4 (bit_cons b5
       (bit_cons b6 (bit_cons b7 (str_num cs))))))))"

fun fresh :: "num \<Rightarrow> num list \<Rightarrow> bool" where
  "fresh x [] = True"
| "fresh x (y # ys) = (x \<noteq> y \<and> fresh x ys)"

fun dedup :: "num list \<Rightarrow> num list" where
  "dedup [] = []"
| "dedup (x # xs) = (if fresh x xs then x # dedup xs else dedup xs)"

fun all_fresh :: "num list \<Rightarrow> bool" where
  "all_fresh [] = True"
| "all_fresh (x # xs) = (fresh x xs \<and> all_fresh xs)"

definition alias_codes :: "solvent \<Rightarrow> num list" where
  "alias_codes s = dedup (map str_num (aliases s))"

section \<open>Properties\<close>

subsection \<open>Lowercasing\<close>

lemma of_char_lower_char:
  "(of_char (lower_char c) :: nat) =
     (let n = of_char c :: nat
      in if (65 \<le> n \<and> n \<le> 90) \<or> (192 \<le> n \<and> n \<le> 222 \<and> n \<noteq> 215) then n + 32 else n)"
  by (simp add: lower_char_def Let_def)

lemma lower_char_Char:
  "lower_char (Char b0 b1 b2 b3 b4 b5 b6 b7) =
     Char b0 b1 b2 b3 b4
       (b5 \<or> (b6 \<and> (if b7 then \<not> (b0 \<and> b1 \<and> b2 \<and> b4)
                      else (b0 \<or> b1 \<or> b2 \<or> b3 \<or> b4) \<and> \<not> (b4 \<and> b3 \<and> (b2 \<or> (b1 \<and> b0))))))
       b6 b7"
proof -
  have "(of_char (lower_char (Char b0 b1 b2 b3 b4 b5 b6 b7)) :: nat) =
     of_char (Char b0 b1 b2 b3 b4
       (b5 \<or> (b6 \<and> (if b7 then \<not> (b0 \<and> b1 \<and> b2 \<and> b4)
                      else (b0 \<or> b1 \<or> b2 \<or> b3 \<or> b4) \<and> \<not> (b4 \<and> b3 \<and> (b2 \<or> (b1 \<and> b0))))))
       b6 b7)"
    unfolding of_char_lower_char
    by (cases b0; cases b1; cases b2; cases b3; cases b4; cases b5; cases b6; cases b7; simp)
  then show ?thesis
    by (simp only: of_char_eq_iff)
qed

lemma lower_char_idem: "lower_char (lower_char c) = lower_char c"
proof -
  have "(of_char (lower_char (lower_char c)) :: nat) = of_char (lower_char c)"
    unfolding of_char_lower_char [of "lower_char c"]
    by (auto simp add: of_char_lower_char Let_def)
  then show ?thesis
    by (simp only: of_char_eq_iff)
qed

lemma lower_idem: "lower (lower s) = lower s"
  by (simp add: lower_def lower_char_idem)

lemmas lower_eval = lower_def lower_char_Char

lemma lower_examples:
  "lower ''water'' = ''water''" "lower ''H2O'' = ''h2o''" "lower ''IMPLICIT'' = ''implicit''"
  "lower ''implicit'' = ''implicit''" "lower ''explicit'' = ''explicit''"
  "lower ''Explicit'' = ''explicit''" "lower ''not-a-solvent'' = ''not-a-solvent''"
  by (simp_all add: lower_eval)

subsection \<open>The constructor\<close>

lemma aliases_Solvent_init:
  "aliases (Solvent_init c nm smi als kw) =
     lower nm # (case als of None \<Rightarrow> [] | Some given \<Rightarrow> map lower given)"
  by (simp add: Solvent_init_def Let_def split: option.splits)

lemma cls_Solvent_init: "cls (Solvent_init c nm smi als kw) = c"
  by (simp add: Solvent_init_def Let_def)

lemma name_Solvent_init: "name (Solvent_init c nm smi als kw) = nm"
  by (simp add: Solvent_init_def Let_def)

lemma smiles_Solvent_init: "smiles (Solvent_init c nm smi als kw) = smi"
  by (simp add: Solvent_init_def Let_def)

lemma attrs_Solvent_init:
  "attrs (Solvent_init c nm smi als kw) =
     (case map_of kw ''g09'' of None \<Rightarrow> kw | Some v \<Rightarrow> AList.update ''g16'' v kw)"
  by (simp add: Solvent_init_def Let_def)

text \<open>
  C10.  A record constructed with a keyword argument \<open>g09\<close> carries the same string under
  \<open>g16\<close>: the Gaussian 16 spelling equals the Gaussian 09 spelling, also when the call
  passes a \<open>g16\<close> of its own.
\<close>

theorem Solvent_init_g16:
  "map_of kwargs ''g09'' = Some v \<Longrightarrow>
   map_of (attrs (Solvent_init c nm smi als kwargs)) ''g16'' = Some v \<and>
   map_of (attrs (Solvent_init c nm smi als kwargs)) ''g09'' = Some v"
  by (simp add: attrs_Solvent_init update_conv')

theorem Solvent_init_g16_witness:
  "map_of [(''orca'', ''water''), (''g09'', ''Water''), (''g16'', ''H2O'')] ''g09'' = Some ''Water'' \<and>
   map_of (attrs (Solvent_init ImplicitSolvent ''water'' (Some ''O'') (Some [''water'', ''h2o''])
                   [(''orca'', ''water''), (''g09'', ''Water''), (''g16'', ''H2O'')])) ''g16''
     = Some ''Water''"
proof -
  have h: "map_of [(''orca'', ''water''), (''g09'', ''Water''), (''g16'', ''H2O'')] ''g09'' = Some ''Water''"
    by simp
  show ?thesis
    using h Solvent_init_g16 [OF h, of ImplicitSolvent "''water''" "Some ''O''" "Some [''water'', ''h2o'']"]
    by blast
qed

text \<open>
  C3, as stated, fails: \<open>aliases\<close> is a list that starts with the lowered name and goes on
  with every given alias, and nothing removes a repetition.  The first constructor call of
  the registry repeats the name among its aliases, so the record holds \<open>water\<close> twice.
\<close>

theorem Solvent_init_aliases_duplicate:
  "\<not> distinct (aliases (Solvent_init ImplicitSolvent ''water'' (Some ''O'') (Some [''water'', ''h2o''])
       [(''orca'', ''water''), (''g09'', ''Water''), (''nwchem'', ''water''), (''xtb'', ''Water''),
        (''mopac'', ''water''), (''qchem'', ''water'')]))"
  by (simp add: aliases_Solvent_init lower_eval)

text \<open>
  C3, amended.  For every constructed record the aliases are the list that holds the
  lowered name followed by every given alias, lowered, in the given order and with no
  repetition removed.  So the list is non-empty, its entries are lowercase strings, its
  first entry is the lowered name, and as a set it is the lowered name together with the
  lowered given aliases; an alias given twice, or equal to the name, is held twice.
\<close>

theorem Solvent_init_aliases:
  "aliases (Solvent_init c nm smi als kwargs) =
     lower nm # (case als of None \<Rightarrow> [] | Some given \<Rightarrow> map lower given) \<and>
   length (aliases (Solvent_init c nm smi als kwargs)) =
     Suc (case als of None \<Rightarrow> 0 | Some given \<Rightarrow> length given) \<and>
   aliases (Solvent_init c nm smi als kwargs) \<noteq> [] \<and>
   hd (aliases (Solvent_init c nm smi als kwargs)) = lower nm \<and>
   lower nm \<in> set (aliases (Solvent_init c nm smi als kwargs)) \<and>
   list_all (\<lambda>a. lower a = a) (aliases (Solvent_init c nm smi als kwargs)) \<and>
   set (aliases (Solvent_init c nm smi als kwargs)) =
     insert (lower nm) (case als of None \<Rightarrow> {} | Some given \<Rightarrow> lower ` set given)"
  by (auto simp add: aliases_Solvent_init lower_idem list_all_iff split: option.splits)

theorem Solvent_init_aliases_witness:
  "aliases (Solvent_init ImplicitSolvent ''diethyl ether'' (Some ''CCOCC'')
      (Some [''diethyl ether'', ''ether'', ''Ethoxyethane'']) [(''g09'', ''DiethylEther'')])
     = [''diethyl ether'', ''diethyl ether'', ''ether'', ''ethoxyethane''] \<and>
   hd (aliases (Solvent_init ImplicitSolvent ''diethyl ether'' (Some ''CCOCC'')
      (Some [''diethyl ether'', ''ether'', ''Ethoxyethane'']) [(''g09'', ''DiethylEther'')]))
     = lower ''diethyl ether''"
  using Solvent_init_aliases [of ImplicitSolvent "''diethyl ether''" "Some ''CCOCC''"
      "Some [''diethyl ether'', ''ether'', ''Ethoxyethane'']" "[(''g09'', ''DiethylEther'')]"]
  by (simp add: aliases_Solvent_init lower_eval)

subsection \<open>The loop of get_solvent\<close>

lemma get_solvent_loop_find:
  "get_solvent_loop e st rs nm kind num =
     (case find (matches st (lower nm)) rs of
        None \<Rightarrow> Inl (SolventNotFound (''No matching solvent in the library for '' @ nm))
      | Some r \<Rightarrow>
          if kind = ''implicit'' then Inr (Registered r)
          else (case num of
                  None \<Rightarrow> Inl (TypeError ''num is None'')
                | Some n \<Rightarrow> map_sum id Converted (to_explicit e (deref st r) n)))"
  by (induction rs) (auto simp add: matches_def Let_def)

lemma find_matches_None:
  "\<forall>r\<in>set rs. a \<notin> set (aliases (deref st r)) \<Longrightarrow> find (matches st a) rs = None"
  by (auto simp add: find_None_iff matches_def)

lemma find_matches_unique:
  assumes "r \<in> set rs" and "matches st a r"
    and "\<forall>q\<in>set rs. q \<noteq> r \<longrightarrow> a \<notin> set (aliases (deref st q))"
  shows "find (matches st a) rs = Some r"
  using assms
proof (induction rs)
  case Nil
  then show ?case by simp
next
  case (Cons q rs)
  then show ?case
    by (cases "q = r") (auto simp add: matches_def)
qed

lemma find_matches_in:
  "find (matches st a) rs = Some r \<Longrightarrow> r \<in> set rs \<and> matches st a r"
  by (induction rs) (auto split: if_splits)

lemma get_solvent_implicit:
  "lower kind = ''implicit'' \<Longrightarrow>
   get_solvent e st (Some nm) kind num =
     ([], case find (matches st (lower nm)) (solvents st) of
            None \<Rightarrow> Inl (SolventNotFound (''No matching solvent in the library for '' @ nm))
          | Some r \<Rightarrow> Inr (Some (Registered r)))"
  by (simp add: get_solvent_def Let_def get_solvent_loop_find split: option.splits)

lemma get_solvent_explicit:
  "lower kind = ''explicit'' \<Longrightarrow>
   get_solvent e st (Some nm) kind (Some n) =
     ([], case find (matches st (lower nm)) (solvents st) of
            None \<Rightarrow> Inl (SolventNotFound (''No matching solvent in the library for '' @ nm))
          | Some r \<Rightarrow> map_sum id (Some \<circ> Converted) (to_explicit e (deref st r) n))"
  by (simp add: get_solvent_def Let_def get_solvent_loop_find map_sum.compositionality comp_def
        id_def split: option.splits)

lemma get_solvent_explicit_None:
  "lower kind = ''explicit'' \<Longrightarrow>
   get_solvent e st (Some nm) kind None =
     ([], Inl (ValueError ''Requested an explicit solvent but number of explicit solvent molecules was not defined''))"
  by (simp add: get_solvent_def Let_def)

subsection \<open>The registry of the module\<close>

lemma bit_cons_simps: "bit_cons True n = Num.Bit1 n" "bit_cons False n = Num.Bit0 n"
  by (simp_all add: bit_cons_def)

lemma fresh_iff: "fresh x ys = (x \<notin> set ys)"
  by (induction ys) auto

lemma set_dedup: "set (dedup xs) = set xs"
  by (induction xs) (auto simp add: fresh_iff)

lemma all_fresh_iff: "all_fresh xs = distinct xs"
  by (induction xs) (auto simp add: fresh_iff)

lemma distinct_concat_owner:
  "distinct (concat (map f xs)) \<Longrightarrow> i < length xs \<Longrightarrow> j < length xs \<Longrightarrow>
   c \<in> set (f (xs ! i)) \<Longrightarrow> c \<in> set (f (xs ! j)) \<Longrightarrow> i = j"
proof (induction xs arbitrary: i j)
  case Nil
  then show ?case by simp
next
  case (Cons x xs)
  from Cons.prems(1) have d: "distinct (concat (map f xs))"
    and disj: "\<forall>y\<in>set xs. set (f x) \<inter> set (f y) = {}"
    by auto
  show ?case
  proof (cases i)
    case 0
    show ?thesis
    proof (cases j)
      case 0
      with \<open>i = 0\<close> show ?thesis by simp
    next
      case (Suc j')
      with Cons.prems 0 disj have False
        by (auto dest: nth_mem)
      then show ?thesis ..
    qed
  next
    case (Suc i')
    show ?thesis
    proof (cases j)
      case 0
      with Cons.prems Suc disj have False
        by (auto dest: nth_mem)
      then show ?thesis ..
    next
      case (Suc j')
      with \<open>i = Suc i'\<close> Cons.prems Cons.IH [OF d, of i' j'] show ?thesis
        by simp
    qed
  qed
qed

lemma length_solvents_init: "length solvents_init = 184"
  by (simp add: solvents_init_def)

lemma objects_initial_state: "objects initial_state = solvents_init"
  by (simp add: initial_state_def)

lemma solvents_initial_state: "solvents initial_state = [0..<184]"
  by (simp add: initial_state_def length_solvents_init)

lemma deref_initial_state: "deref initial_state r = solvents_init ! r"
  by (simp add: deref_def objects_initial_state)

lemma wf_initial_state: "wf_state initial_state"
  by (simp add: wf_state_def list_all_iff objects_initial_state solvents_initial_state
      length_solvents_init)

lemma registry_all_implicit: "list_all is_implicit solvents_init"
  by (simp only: solvents_init_def list.pred_inject is_implicit_def cls_Solvent_init
      solvent_class.case simp_thms)

lemma registry_name_alias: "list_all (\<lambda>s. lower (name s) \<in> set (aliases s)) solvents_init"
  by (simp only: solvents_init_def list.pred_inject name_Solvent_init aliases_Solvent_init
      list.set insert_iff simp_thms)

text \<open>
  No alias belongs to two records of the registry: the codes of all aliases, record by
  record, are pairwise different.
\<close>

lemma registry_codes_fresh:
  "all_fresh (concat (map alias_codes solvents_init))"
  apply (simp only: solvents_init_def alias_codes_def aliases_Solvent_init list.map option.case)
  apply (simp only: lower_def list.map lower_char_Char simp_thms if_True if_False)
  apply (simp only: str_num.simps bit_cons_simps list.map)
  apply (simp only: dedup.simps fresh.simps num.inject num.distinct simp_thms if_True if_False
      concat.simps append.simps)
  apply (simp only: fresh.simps all_fresh.simps num.inject num.distinct simp_thms)
  done

lemma registry_unshared:
  assumes "i < 184" and "j < 184"
    and "a \<in> set (aliases (solvents_init ! i))" and "a \<in> set (aliases (solvents_init ! j))"
  shows "i = j"
proof -
  have d: "distinct (concat (map alias_codes solvents_init))"
    using registry_codes_fresh by (simp only: all_fresh_iff)
  have "str_num a \<in> set (alias_codes (solvents_init ! i))"
    and "str_num a \<in> set (alias_codes (solvents_init ! j))"
    using assms(3,4) by (simp_all add: alias_codes_def set_dedup)
  with d assms(1,2) show ?thesis
    using distinct_concat_owner [of alias_codes solvents_init i j "str_num a"]
    by (simp add: length_solvents_init)
qed

lemma registry_find:
  assumes "r \<in> set (solvents initial_state)"
    and "a \<in> set (aliases (deref initial_state r))"
  shows "find (matches initial_state a) (solvents initial_state) = Some r"
proof (rule find_matches_unique [OF assms(1)])
  have r: "r < 184"
    using assms(1) by (simp add: solvents_initial_state)
  then have "is_implicit (solvents_init ! r)"
    using registry_all_implicit by (simp add: list_all_length length_solvents_init)
  with assms(2) show "matches initial_state a r"
    by (simp add: matches_def deref_initial_state)
  show "\<forall>q\<in>set (solvents initial_state). q \<noteq> r \<longrightarrow> a \<notin> set (aliases (deref initial_state q))"
  proof (intro ballI impI notI)
    fix q
    assume "q \<in> set (solvents initial_state)" and ne: "q \<noteq> r"
      and "a \<in> set (aliases (deref initial_state q))"
    then have "q < 184" and "a \<in> set (aliases (solvents_init ! q))"
      by (simp_all add: solvents_initial_state deref_initial_state)
    moreover have "a \<in> set (aliases (solvents_init ! r))"
      using assms(2) by (simp add: deref_initial_state)
    ultimately have "q = r"
      using r registry_unshared by blast
    with ne show False by simp
  qed
qed

text \<open>The first record, and a name that no record carries.\<close>

lemma registry_0:
  "deref initial_state 0 =
     Solvent_init ImplicitSolvent ''water'' (Some ''O'') (Some [''water'', ''h2o''])
       [(''orca'', ''water''), (''g09'', ''Water''), (''nwchem'', ''water''), (''xtb'', ''Water''),
        (''mopac'', ''water''), (''qchem'', ''water'')]"
  by (simp only: deref_initial_state solvents_init_def nth_Cons_0)

lemma aliases_registry_0: "aliases (deref initial_state 0) = [''water'', ''water'', ''h2o'']"
  by (simp add: registry_0 aliases_Solvent_init lower_eval)

lemma name_registry_0: "name (deref initial_state 0) = ''water''"
  by (simp add: registry_0 name_Solvent_init)

lemma find_water: "find (matches initial_state ''water'') (solvents initial_state) = Some 0"
  by (rule registry_find) (simp_all add: solvents_initial_state aliases_registry_0)

lemma find_h2o: "find (matches initial_state ''h2o'') (solvents initial_state) = Some 0"
  by (rule registry_find) (simp_all add: solvents_initial_state aliases_registry_0)

lemma registry_not_a_solvent:
  "list_all (\<lambda>s. ''not-a-solvent'' \<notin> set (aliases s)) solvents_init"
  apply (simp only: solvents_init_def aliases_Solvent_init list.map option.case list.pred_inject)
  apply (simp only: lower_def list.map lower_char_Char simp_thms if_True if_False)
  apply (simp only: list.set insert_iff empty_iff list.inject list.distinct char.inject simp_thms)
  done

lemma find_not_a_solvent:
  "find (matches initial_state ''not-a-solvent'') (solvents initial_state) = None"
proof (rule find_matches_None, rule ballI)
  fix r assume "r \<in> set (solvents initial_state)"
  then have "r < length solvents_init"
    by (simp add: solvents_initial_state length_solvents_init)
  then show "''not-a-solvent'' \<notin> set (aliases (deref initial_state r))"
    using registry_not_a_solvent by (simp add: list_all_length deref_initial_state)
qed

lemma dielectric_lookups:
  "solvents_and_dielectrics ''trichloromethane'' = None"
  "solvents_and_dielectrics ''chloroform'' = Some (FloatLit 471 2)"
  "solvents_and_dielectrics ''1-chloropentane'' = None"
  "solvents_and_dielectrics ''chloropentane'' = None"
  by (simp_all only: solvents_and_dielectrics_def dielectric_items_def map_of.simps fun_upd_apply
      fst_conv snd_conv list.inject list.distinct char.inject simp_thms if_True if_False)

lemma xyz_path_water: "xyz_path lib_env ''water'' = ''/autode/solvent/lib/water.xyz''"
  "xyz_path empty_env ''water'' = ''/autode/solvent/lib/water.xyz''"
  by (simp_all add: xyz_path_def path_join_def lib_env_def empty_env_def)

subsection \<open>Kind, name and alias\<close>

text \<open>
  C7.  Only the lowered kind is looked at: two kinds that agree after lowering give the same
  result for every name, count, registry and environment, and a kind whose lowered form is
  neither \<open>implicit\<close> nor \<open>explicit\<close> fails with a \<open>ValueError\<close>, whatever the name is.
\<close>

theorem get_solvent_kind_normalised:
  "(lower k1 = lower k2 \<longrightarrow> get_solvent e st nm k1 num = get_solvent e st nm k2 num) \<and>
   (lower k \<noteq> ''implicit'' \<and> lower k \<noteq> ''explicit'' \<longrightarrow>
      get_solvent e st nm k num =
        ([], Inl (ValueError (''Solvent must be explicit or implicit. Had: '' @ lower k))))"
  by (simp add: get_solvent_def Let_def)

theorem get_solvent_kind_normalised_witness:
  "lower ''IMPLICIT'' = lower ''implicit'' \<and>
   get_solvent lib_env initial_state (Some ''water'') ''IMPLICIT'' None =
     get_solvent lib_env initial_state (Some ''water'') ''implicit'' None \<and>
   lower ''Both'' \<noteq> ''implicit'' \<and> lower ''Both'' \<noteq> ''explicit'' \<and>
   get_solvent lib_env initial_state (Some ''water'') ''Both'' None =
     ([], Inl (ValueError ''Solvent must be explicit or implicit. Had: both''))"
proof -
  have a: "lower ''IMPLICIT'' = lower ''implicit''"
    by (simp add: lower_eval)
  have b: "lower ''Both'' = ''both''"
    by (simp add: lower_eval)
  show ?thesis
    using a b
      get_solvent_kind_normalised [of "''IMPLICIT''" "''implicit''" lib_env initial_state
        "Some ''water''" None "''Both''"]
    by simp
qed

text \<open>
  C4.  In the registry of the module, every spelling whose lowered form is an alias of a
  registry record resolves, with kind implicit, to that very record, so the names agree;
  resolving by the record's own name gives the same record, and the two results are equal
  by name and SMILES.
\<close>

theorem registry_alias_resolution:
  assumes "r \<in> set (solvents initial_state)"
    and "lower s \<in> set (aliases (deref initial_state r))"
    and "lower kind = ''implicit''"
  shows "get_solvent e initial_state (Some s) kind num = ([], Inr (Some (Registered r))) \<and>
         get_solvent e initial_state (Some (name (deref initial_state r))) kind num =
           ([], Inr (Some (Registered r))) \<and>
         solvent_eq (deref initial_state r) (Some (deref initial_state r))"
proof -
  have "r < 184"
    using assms(1) by (simp add: solvents_initial_state)
  then have "lower (name (deref initial_state r)) \<in> set (aliases (deref initial_state r))"
    using registry_name_alias
    by (simp add: list_all_length length_solvents_init deref_initial_state)
  then have "find (matches initial_state (lower (name (deref initial_state r))))
               (solvents initial_state) = Some r"
    using assms(1) by (rule registry_find [rotated])
  moreover have "find (matches initial_state (lower s)) (solvents initial_state) = Some r"
    using assms(1,2) by (rule registry_find)
  ultimately show ?thesis
    using assms(3) by (simp add: get_solvent_implicit solvent_eq_def)
qed

theorem registry_alias_resolution_witness:
  "get_solvent lib_env initial_state (Some ''H2O'') ''IMPLICIT'' None =
     ([], Inr (Some (Registered 0))) \<and>
   get_solvent lib_env initial_state (Some ''water'') ''IMPLICIT'' None =
     ([], Inr (Some (Registered 0))) \<and>
   name (deref initial_state 0) = ''water'' \<and>
   solvent_eq (deref initial_state 0) (Some (deref initial_state 0))"
proof -
  have r: "0 \<in> set (solvents initial_state)"
    by (simp add: solvents_initial_state)
  have a: "lower ''H2O'' \<in> set (aliases (deref initial_state 0))"
    by (simp add: lower_examples aliases_registry_0)
  have k: "lower ''IMPLICIT'' = ''implicit''"
    by (rule lower_examples)
  show ?thesis
    using registry_alias_resolution [OF r a k, of lib_env None]
    by (simp add: name_registry_0)
qed

text \<open>
  C6, as stated, fails: an explicit request without a count for a name that no record
  carries ends in the \<open>ValueError\<close> of the missing count, not in \<open>SolventNotFound\<close>.
\<close>

theorem get_solvent_unknown_explicit_no_count:
  "find (matches initial_state (lower ''not-a-solvent'')) (solvents initial_state) = None \<and>
   get_solvent lib_env initial_state (Some ''not-a-solvent'') ''explicit'' None =
     ([], Inl (ValueError ''Requested an explicit solvent but number of explicit solvent molecules was not defined''))"
  by (simp add: get_solvent_explicit_None lower_examples find_not_a_solvent)

text \<open>
  C6, amended.  With a valid kind an absent name gives \<open>None\<close> without an error.  A name
  that is present and matches no alias of any registry record fails with
  \<open>SolventNotFound\<close> carrying the name, provided the kind is implicit or a count was
  given.  An explicit request without a count fails with a \<open>ValueError\<close> for every
  present name, known or not, since the count is looked at before the registry is read.
\<close>

theorem get_solvent_absent_or_unknown:
  "(lower kind = ''implicit'' \<or> lower kind = ''explicit'' \<longrightarrow>
      get_solvent e st None kind num =
        ([''Not requested any solvent - returning None''], Inr None)) \<and>
   ((lower kind = ''implicit'' \<or> (lower kind = ''explicit'' \<and> num \<noteq> None)) \<and>
    (\<forall>r\<in>set (solvents st). lower nm \<notin> set (aliases (deref st r))) \<longrightarrow>
      get_solvent e st (Some nm) kind num =
        ([], Inl (SolventNotFound (''No matching solvent in the library for '' @ nm)))) \<and>
   (lower kind = ''explicit'' \<longrightarrow>
      get_solvent e st (Some nm) kind None =
        ([], Inl (ValueError ''Requested an explicit solvent but number of explicit solvent molecules was not defined'')))"
proof (intro conjI impI)
  assume "lower kind = ''implicit'' \<or> lower kind = ''explicit''"
  then show "get_solvent e st None kind num =
        ([''Not requested any solvent - returning None''], Inr None)"
    by (auto simp add: get_solvent_def Let_def)
next
  assume a: "(lower kind = ''implicit'' \<or> (lower kind = ''explicit'' \<and> num \<noteq> None)) \<and>
    (\<forall>r\<in>set (solvents st). lower nm \<notin> set (aliases (deref st r)))"
  then have f: "find (matches st (lower nm)) (solvents st) = None"
    by (simp add: find_matches_None)
  from a consider "lower kind = ''implicit''" | n where "lower kind = ''explicit''" "num = Some n"
    by auto
  then show "get_solvent e st (Some nm) kind num =
        ([], Inl (SolventNotFound (''No matching solvent in the library for '' @ nm)))"
  proof cases
    case 1
    then show ?thesis by (simp add: get_solvent_implicit f)
  next
    case 2
    then show ?thesis by (simp add: get_solvent_explicit f)
  qed
next
  assume "lower kind = ''explicit''"
  then show "get_solvent e st (Some nm) kind None =
        ([], Inl (ValueError ''Requested an explicit solvent but number of explicit solvent molecules was not defined''))"
    by (rule get_solvent_explicit_None)
qed

theorem get_solvent_absent_or_unknown_witness:
  "get_solvent lib_env initial_state None ''Explicit'' None =
     ([''Not requested any solvent - returning None''], Inr None) \<and>
   get_solvent lib_env initial_state (Some ''not-a-solvent'') ''implicit'' None =
     ([], Inl (SolventNotFound ''No matching solvent in the library for not-a-solvent'')) \<and>
   get_solvent lib_env initial_state (Some ''not-a-solvent'') ''Explicit'' (Some 5) =
     ([], Inl (SolventNotFound ''No matching solvent in the library for not-a-solvent'')) \<and>
   get_solvent lib_env initial_state (Some ''not-a-solvent'') ''Explicit'' None =
     ([], Inl (ValueError ''Requested an explicit solvent but number of explicit solvent molecules was not defined''))"
proof -
  have u: "\<forall>r\<in>set (solvents initial_state).
             lower ''not-a-solvent'' \<notin> set (aliases (deref initial_state r))"
    using registry_not_a_solvent
    by (simp add: lower_examples list_all_length deref_initial_state solvents_initial_state
        length_solvents_init)
  show ?thesis
    using get_solvent_absent_or_unknown [of "''Explicit''" lib_env initial_state None "''not-a-solvent''"]
      get_solvent_absent_or_unknown [of "''implicit''" lib_env initial_state None "''not-a-solvent''"]
      get_solvent_absent_or_unknown [of "''Explicit''" lib_env initial_state "Some 5" "''not-a-solvent''"]
      u
    by (simp add: lower_examples)
qed

subsection \<open>Sharing of the registry objects\<close>

lemma deref_mutate:
  "deref (mutate r f st) q =
     (if q = r \<and> r < length (objects st) then f (deref st r) else deref st q)"
  by (cases "r < length (objects st)") (simp_all add: deref_def mutate_def nth_list_update list_update_beyond)

text \<open>
  C1, as stated, fails: resolving \<open>water\<close> returns the reference held by the registry,
  and renaming the returned object renames the registry entry.
\<close>

theorem get_solvent_returns_registry_object:
  "get_solvent lib_env initial_state (Some ''water'') ''implicit'' None =
     ([], Inr (Some (Registered 0))) \<and>
   solvents initial_state ! 0 = 0 \<and>
   name (deref initial_state (solvents initial_state ! 0)) = ''water'' \<and>
   name (deref (mutate 0 (set_name ''heavy water'') initial_state) (solvents initial_state ! 0))
     = ''heavy water''"
proof -
  have "get_solvent lib_env initial_state (Some ''water'') ''implicit'' None =
     ([], Inr (Some (Registered 0)))"
    by (simp add: get_solvent_implicit lower_examples find_water)
  moreover have "solvents initial_state ! 0 = 0"
    by (simp add: solvents_initial_state)
  moreover have "name (deref (mutate 0 (set_name ''heavy water'') initial_state) 0) = ''heavy water''"
    by (simp add: deref_mutate objects_initial_state length_solvents_init set_name_def)
  ultimately show ?thesis
    by (simp add: name_registry_0)
qed

text \<open>
  C1, amended.  For a name that matches an implicit record and kind implicit, the result is
  a reference to the registry's own object, not a copy: a mutation through it is a mutation
  of the registry entry.  \<open>Solvent.copy\<close> of that object is a new object outside the
  registry, equal to the entry, and no mutation of the copy changes any registry entry.
\<close>

theorem get_solvent_implicit_shared:
  assumes "lower kind = ''implicit''"
    and "find (matches st (lower nm)) (solvents st) = Some r"
    and "wf_state st"
  shows "get_solvent e st (Some nm) kind num = ([], Inr (Some (Registered r))) \<and>
         r \<in> set (solvents st) \<and>
         (\<forall>f. deref (mutate r f st) r = f (deref st r)) \<and>
         (case copy st r of (st', r') \<Rightarrow>
            solvents st' = solvents st \<and> r' \<notin> set (solvents st') \<and>
            deref st' r' = deref st r \<and>
            solvent_eq (deref st' r') (Some (deref st r)) \<and>
            (\<forall>f. \<forall>q\<in>set (solvents st). deref (mutate r' f st') q = deref st q))"
proof -
  have r: "r \<in> set (solvents st)"
    using assms(2) find_matches_in by blast
  have lt: "\<forall>q\<in>set (solvents st). q < length (objects st)"
    using assms(3) by (simp add: wf_state_def list_all_iff)
  have 1: "get_solvent e st (Some nm) kind num = ([], Inr (Some (Registered r)))"
    using assms(1,2) by (simp add: get_solvent_implicit)
  have 2: "\<forall>f. deref (mutate r f st) r = f (deref st r)"
    using r lt by (simp add: deref_mutate)
  have 3: "case copy st r of (st', r') \<Rightarrow>
            solvents st' = solvents st \<and> r' \<notin> set (solvents st') \<and>
            deref st' r' = deref st r \<and>
            solvent_eq (deref st' r') (Some (deref st r)) \<and>
            (\<forall>f. \<forall>q\<in>set (solvents st). deref (mutate r' f st') q = deref st q)"
    using lt by (auto simp add: copy_def deref_def mutate_def solvent_eq_def nth_append)
  from 1 r 2 3 show ?thesis by blast
qed

theorem get_solvent_implicit_shared_witness:
  "get_solvent lib_env initial_state (Some ''water'') ''implicit'' None =
     ([], Inr (Some (Registered 0))) \<and>
   0 \<in> set (solvents initial_state) \<and>
   (case copy initial_state 0 of
      (st', r') \<Rightarrow>
        solvents st' = solvents initial_state \<and> r' = 184 \<and>
        deref st' r' = deref initial_state 0 \<and>
        deref (mutate r' (set_name ''heavy water'') st') 0 = deref initial_state 0)"
proof -
  have k: "lower ''implicit'' = ''implicit''"
    by (rule lower_examples)
  have f: "find (matches initial_state (lower ''water'')) (solvents initial_state) = Some 0"
    by (simp only: lower_examples find_water)
  have z: "0 \<in> set (solvents initial_state)"
    by (simp add: solvents_initial_state)
  have c: "snd (copy initial_state 0) = 184"
    by (simp add: copy_def objects_initial_state length_solvents_init)
  show ?thesis
    using get_solvent_implicit_shared [OF k f wf_initial_state, of lib_env None] z c
    by (auto split: prod.splits)
qed

subsection \<open>Dielectric\<close>

lemma dielectric_loop_None:
  "(dielectric_loop d als = None) = (\<forall>a\<in>set als. d a = None)"
  by (induction als) auto

lemma dielectric_loop_first:
  "i < length als \<Longrightarrow> d (als ! i) = Some v \<Longrightarrow> \<forall>j<i. d (als ! j) = None \<Longrightarrow>
   dielectric_loop d als = Some (Inr v)"
proof (induction als arbitrary: i)
  case Nil
  then show ?case by simp
next
  case (Cons a als)
  show ?case
  proof (cases i)
    case 0
    with Cons.prems show ?thesis by (simp add: getitem_def)
  next
    case (Suc k)
    have "\<forall>j<k. d (als ! j) = None"
    proof (intro allI impI)
      fix j assume "j < k"
      then have "Suc j < i" using Suc by simp
      with Cons.prems have "d ((a # als) ! Suc j) = None" by blast
      then show "d (als ! j) = None" by simp
    qed
    then have "dielectric_loop d als = Some (Inr v)"
      using Cons.IH [of k] Cons.prems Suc by simp
    moreover have "d a = None"
      using Cons.prems Suc by auto
    ultimately show ?thesis by simp
  qed
qed

lemma dielectric_loop_no_error: "dielectric_loop d als \<noteq> Some (Inl err)"
  by (induction als) (auto simp add: getitem_def)

text \<open>
  C5.  The dielectric lookup walks the aliases in their stored order: if the alias at
  position \<open>i\<close> is a key of the table and no earlier alias is, the value stored under it
  is returned and nothing is logged; if no alias is a key, the result is \<open>None\<close> with one
  warning logged.  The lookup never raises.
\<close>

theorem dielectric_first_alias:
  "(i < length (aliases self) \<and> d (aliases self ! i) = Some v \<and>
    (\<forall>j<i. d (aliases self ! j) = None) \<longrightarrow>
      dielectric d self = ([], Inr (Some v))) \<and>
   ((\<forall>a\<in>set (aliases self). d a = None) \<longrightarrow>
      dielectric d self =
        ([''Could not find a dielectric for: '' @ name self @ ''. Returning None''], Inr None)) \<and>
   (\<exists>lg res. dielectric d self = (lg, Inr res))"
proof (intro conjI impI)
  assume "i < length (aliases self) \<and> d (aliases self ! i) = Some v \<and>
    (\<forall>j<i. d (aliases self ! j) = None)"
  then have "dielectric_loop d (aliases self) = Some (Inr v)"
    using dielectric_loop_first [of i "aliases self" d v] by blast
  then show "dielectric d self = ([], Inr (Some v))"
    by (simp add: dielectric_def)
next
  assume "\<forall>a\<in>set (aliases self). d a = None"
  then have "dielectric_loop d (aliases self) = None"
    by (simp add: dielectric_loop_None)
  then show "dielectric d self =
        ([''Could not find a dielectric for: '' @ name self @ ''. Returning None''], Inr None)"
    by (simp add: dielectric_def)
next
  show "\<exists>lg res. dielectric d self = (lg, Inr res)"
    using dielectric_loop_no_error [of d "aliases self"]
    by (auto simp add: dielectric_def split: option.splits sum.splits)
qed

theorem dielectric_first_alias_witness:
  "dielectric solvents_and_dielectrics
     (Solvent_init ImplicitSolvent ''trichloromethane'' (Some ''ClC(Cl)Cl'')
        (Some [''chloroform'', ''trichloromethane'', ''chcl3'', ''methyl trichloride''])
        [(''orca'', ''chloroform''), (''g09'', ''Chloroform'')])
     = ([], Inr (Some (FloatLit 471 2))) \<and>
   dielectric solvents_and_dielectrics
     (Solvent_init ImplicitSolvent ''1-chloropentane'' (Some ''CCCCCCl'')
        (Some [''1-chloropentane'', ''chloropentane''])
        [(''orca'', ''1-chloropentane''), (''g09'', ''1-ChloroPentane'')])
     = ([''Could not find a dielectric for: 1-chloropentane. Returning None''], Inr None)"
proof -
  let ?a = "Solvent_init ImplicitSolvent ''trichloromethane'' (Some ''ClC(Cl)Cl'')
        (Some [''chloroform'', ''trichloromethane'', ''chcl3'', ''methyl trichloride''])
        [(''orca'', ''chloroform''), (''g09'', ''Chloroform'')]"
  let ?b = "Solvent_init ImplicitSolvent ''1-chloropentane'' (Some ''CCCCCCl'')
        (Some [''1-chloropentane'', ''chloropentane''])
        [(''orca'', ''1-chloropentane''), (''g09'', ''1-ChloroPentane'')]"
  have a: "aliases ?a = [''trichloromethane'', ''chloroform'', ''trichloromethane'', ''chcl3'',
             ''methyl trichloride'']"
    by (simp add: aliases_Solvent_init lower_eval)
  have b: "aliases ?b = [''1-chloropentane'', ''1-chloropentane'', ''chloropentane'']"
    by (simp add: aliases_Solvent_init lower_eval)
  have 1: "1 < length (aliases ?a) \<and>
           solvents_and_dielectrics (aliases ?a ! 1) = Some (FloatLit 471 2) \<and>
           (\<forall>j<1. solvents_and_dielectrics (aliases ?a ! j) = None)"
    by (simp add: a dielectric_lookups)
  have 2: "\<forall>x\<in>set (aliases ?b). solvents_and_dielectrics x = None"
    by (simp add: b dielectric_lookups)
  show ?thesis
    using dielectric_first_alias [of 1 ?a solvents_and_dielectrics "FloatLit 471 2"]
      dielectric_first_alias [of 0 ?b solvents_and_dielectrics "FloatLit 0 0"] 1 2
    by (simp add: name_Solvent_init)
qed

subsection \<open>Conversion\<close>

text \<open>
  C8.  When the structure file of the record exists and loads and the count is positive, the
  conversion succeeds, and every successful conversion returns an assembly with the requested
  count, one molecule of charge 0 and multiplicity 1 under the record's name holding the
  file's atoms, the record's aliases and no solute.
\<close>

theorem to_explicit_success:
  "(path_exists e (xyz_path e (name self)) \<and>
    xyz_file_to_atoms e (xyz_path e (name self)) = Inr ats \<and> 0 < num \<longrightarrow>
      to_explicit e self num =
        Inr \<lparr>es_solvent = \<lparr>species_name = name self, charge = 0, mult = 1, atoms = ats\<rparr>,
             es_num = num, es_solute = None, es_aliases = aliases self\<rparr>) \<and>
   (to_explicit e self num = Inr x \<longrightarrow>
      es_num x = num \<and> 0 < num \<and> es_solute x = None \<and> es_aliases x = aliases self \<and>
      path_exists e (xyz_path e (name self)) \<and>
      (\<exists>ats. xyz_file_to_atoms e (xyz_path e (name self)) = Inr ats \<and>
             es_solvent x = \<lparr>species_name = name self, charge = 0, mult = 1, atoms = ats\<rparr>))"
  by (auto simp add: to_explicit_def Let_def ExplicitSolvent_init_def Species_init_def
      split: if_splits sum.splits)

theorem to_explicit_success_witness:
  "to_explicit lib_env (deref initial_state 0) 5 =
     Inr \<lparr>es_solvent = \<lparr>species_name = ''water'', charge = 0, mult = 1, atoms = water_atoms\<rparr>,
          es_num = 5, es_solute = None, es_aliases = [''water'', ''water'', ''h2o'']\<rparr> \<and>
   get_solvent lib_env initial_state (Some ''water'') ''explicit'' (Some 5) =
     ([], Inr (Some (Converted
        \<lparr>es_solvent = \<lparr>species_name = ''water'', charge = 0, mult = 1, atoms = water_atoms\<rparr>,
         es_num = 5, es_solute = None, es_aliases = [''water'', ''water'', ''h2o'']\<rparr>)))"
proof -
  have p: "path_exists lib_env (xyz_path lib_env (name (deref initial_state 0))) \<and>
           xyz_file_to_atoms lib_env (xyz_path lib_env (name (deref initial_state 0))) = Inr water_atoms \<and>
           (0::int) < 5"
    by (simp add: name_registry_0 xyz_path_water) (simp add: lib_env_def)
  have "to_explicit lib_env (deref initial_state 0) 5 =
     Inr \<lparr>es_solvent = \<lparr>species_name = ''water'', charge = 0, mult = 1, atoms = water_atoms\<rparr>,
          es_num = 5, es_solute = None, es_aliases = [''water'', ''water'', ''h2o'']\<rparr>"
    using to_explicit_success [of lib_env "deref initial_state 0" water_atoms 5] p
    by (simp add: name_registry_0 aliases_registry_0)
  then show ?thesis
    by (simp add: get_solvent_explicit lower_examples find_water)
qed

text \<open>
  C9.  When no structure file exists at the record's path, the conversion fails with an
  \<open>IOError\<close> for every count, and an explicit request that matches this record returns
  that same error to the caller.
\<close>

theorem to_explicit_missing_file:
  "\<not> path_exists e (xyz_path e (name self)) \<Longrightarrow>
   to_explicit e self num =
     Inl (IOError (''Could not convert '' @ name self @ '' to explicit solvent ''
                    @ xyz_path e (name self) @ '' did not exist'')) \<and>
   (lower kind = ''explicit'' \<and> find (matches st (lower nm)) (solvents st) = Some r \<and>
    deref st r = self \<longrightarrow>
      get_solvent e st (Some nm) kind (Some num) =
        ([], Inl (IOError (''Could not convert '' @ name self @ '' to explicit solvent ''
                            @ xyz_path e (name self) @ '' did not exist''))))"
  by (simp add: get_solvent_explicit) (simp add: to_explicit_def Let_def)

theorem to_explicit_missing_file_witness:
  "to_explicit empty_env (deref initial_state 0) 5 =
     Inl (IOError ''Could not convert water to explicit solvent /autode/solvent/lib/water.xyz did not exist'') \<and>
   get_solvent empty_env initial_state (Some ''H2O'') ''explicit'' (Some 5) =
     ([], Inl (IOError ''Could not convert water to explicit solvent /autode/solvent/lib/water.xyz did not exist''))"
proof -
  have p: "\<not> path_exists empty_env (xyz_path empty_env (name (deref initial_state 0)))"
    by (simp add: empty_env_def)
  have q: "lower ''explicit'' = ''explicit'' \<and>
           find (matches initial_state (lower ''H2O'')) (solvents initial_state) = Some 0 \<and>
           deref initial_state 0 = deref initial_state 0"
    by (simp only: lower_examples find_h2o simp_thms)
  show ?thesis
    using to_explicit_missing_file [OF p, of 5 "''explicit''" initial_state "''H2O''" 0] q
    by (simp add: name_registry_0 xyz_path_water)
qed

text \<open>
  C2, as stated, fails: where no structure file exists, an explicit request for \<open>water\<close>
  with count 0 ends in the \<open>IOError\<close> of the missing file, not in a \<open>ValueError\<close>.
\<close>

theorem get_solvent_count_zero_missing_file:
  "find (matches initial_state (lower ''water'')) (solvents initial_state) = Some 0 \<and>
   get_solvent empty_env initial_state (Some ''water'') ''explicit'' (Some 0) =
     ([], Inl (IOError ''Could not convert water to explicit solvent /autode/solvent/lib/water.xyz did not exist''))"
proof -
  have "to_explicit empty_env (deref initial_state 0) 0 =
      Inl (IOError ''Could not convert water to explicit solvent /autode/solvent/lib/water.xyz did not exist'')"
    by (simp add: to_explicit_def Let_def name_registry_0 xyz_path_water)
      (simp add: empty_env_def name_registry_0)
  then show ?thesis
    by (simp add: get_solvent_explicit lower_examples find_water)
qed

text \<open>
  C2, amended.  For an explicit request whose name matches an implicit record, an absent
  count fails with a \<open>ValueError\<close>.  A count of zero or below is never accepted: it fails
  with a \<open>ValueError\<close> when the record's structure file exists and loads, with an
  \<open>IOError\<close> when the file does not exist, and with the reader's error when the file
  cannot be read, since the file is looked at before the count.
\<close>

theorem get_solvent_explicit_count:
  "lower kind = ''explicit'' \<and> find (matches st (lower nm)) (solvents st) = Some r \<longrightarrow>
     get_solvent e st (Some nm) kind None =
       ([], Inl (ValueError ''Requested an explicit solvent but number of explicit solvent molecules was not defined'')) \<and>
     (n \<le> 0 \<longrightarrow>
        get_solvent e st (Some nm) kind (Some n) =
          ([], Inl (if \<not> path_exists e (xyz_path e (name (deref st r)))
                    then IOError (''Could not convert '' @ name (deref st r) @ '' to explicit solvent ''
                                   @ xyz_path e (name (deref st r)) @ '' did not exist'')
                    else (case xyz_file_to_atoms e (xyz_path e (name (deref st r))) of
                            Inl err \<Rightarrow> err
                          | Inr ats \<Rightarrow> ValueError ''Must solvate with at least a single solvent molecule''))))"
  by (auto simp add: get_solvent_explicit get_solvent_explicit_None to_explicit_def Let_def
      ExplicitSolvent_init_def split: sum.splits)

theorem get_solvent_explicit_count_witness:
  "get_solvent lib_env initial_state (Some ''water'') ''Explicit'' None =
     ([], Inl (ValueError ''Requested an explicit solvent but number of explicit solvent molecules was not defined'')) \<and>
   get_solvent lib_env initial_state (Some ''water'') ''Explicit'' (Some 0) =
     ([], Inl (ValueError ''Must solvate with at least a single solvent molecule'')) \<and>
   get_solvent empty_env initial_state (Some ''water'') ''Explicit'' (Some (- 3)) =
     ([], Inl (IOError ''Could not convert water to explicit solvent /autode/solvent/lib/water.xyz did not exist''))"
proof -
  have h: "lower ''Explicit'' = ''explicit'' \<and>
           find (matches initial_state (lower ''water'')) (solvents initial_state) = Some 0"
    by (simp only: lower_examples find_water simp_thms)
  have a: "(0::int) \<le> 0" and b: "(- 3::int) \<le> 0"
    by simp_all
  show ?thesis
    using get_solvent_explicit_count [of "''Explicit''" initial_state "''water''" 0 lib_env 0]
      get_solvent_explicit_count [of "''Explicit''" initial_state "''water''" 0 empty_env "- 3"]
      h a b
    by (simp add: name_registry_0 xyz_path_water) (simp add: lib_env_def empty_env_def)
qed

end
